theory Spec2Isabelle
  imports Main
begin

section \<open>Go values, errors and strings\<close>

text \<open>
  Go errors are values. \<open>Errorf\<close> is an error made by \<open>fmt.Errorf\<close> with its rendered
  message, \<open>Wrapf\<close> is \<open>errors.Wrapf\<close> (the cause and the rendered context message),
  \<open>ErrNoRows\<close> is the sentinel \<open>sql.ErrNoRows\<close>, \<open>DriverErr\<close> is any error produced
  by the database connection, and \<open>SetErr\<close> is the error of a rejected \<open>data.Set\<close>.
\<close>

datatype error =
    Errorf string
  | Wrapf error string
  | ErrNoRows
  | DriverErr string
  | SetErr string

text \<open>
  \<open>strings.Split(s, sep)\<close>: the pieces of \<open>s\<close> between the non-overlapping
  occurrences of \<open>sep\<close>, found from the left. With an empty separator Go cuts after
  every character.
\<close>

function Split :: "string \<Rightarrow> string \<Rightarrow> string list" where
  "Split s sep =
     (if sep = [] then map (\<lambda>c. [c]) s
      else if s = [] then [[]]
      else if take (length sep) s = sep then [] # Split (drop (length sep) s) sep
      else (case Split (tl s) sep of
              [] \<Rightarrow> [[hd s]]
            | w # ws \<Rightarrow> (hd s # w) # ws))"
  by pat_completeness auto
termination
  by (relation "measure (\<lambda>(s, sep). length s)") (auto simp: neq_Nil_conv)

declare Split.simps [simp del]

section \<open>The composite ID of a schema\<close>

text \<open>\<open>fmt.Sprintf("%v|%v", database, name)\<close> of \<open>CreateSchema\<close>.\<close>

definition schemaID :: "string \<Rightarrow> string \<Rightarrow> string" where
  "schemaID database name = database @ ''|'' @ name"

definition splitSchemaID :: "string \<Rightarrow> error + (string \<times> string)" where
  "splitSchemaID v =
     (let arr = Split v ''|''
      in if length arr \<noteq> 2 then Inl (Errorf (''ID '' @ v @ '' is invalid''))
         else Inr (arr ! 0, arr ! 1))"

section \<open>Attribute values and attribute schemas\<close>

text \<open>
  The values of the attribute bag (\<open>interface{}\<close> in the source): strings, booleans
  and integers, and \<open>VNil\<close> for the nil interface that the bag returns for a name its
  schema does not declare. The type assertions \<open>v.(string)\<close>, \<open>v.(bool)\<close> and
  \<open>v.(int)\<close> of the source are defined on the matching kind only (they panic on any
  other); lemma \<open>Get_kind\<close> below shows that a declared attribute is always read at its
  declared kind.
\<close>

datatype val = VNil | VString string | VBool bool | VInt int

datatype ValueType = TypeString | TypeBool | TypeInt

fun kind :: "val \<Rightarrow> ValueType option" where
  "kind VNil = None"
| "kind (VString s) = Some TypeString"
| "kind (VBool b) = Some TypeBool"
| "kind (VInt i) = Some TypeInt"

fun Zero :: "ValueType \<Rightarrow> val" where
  "Zero TypeString = VString []"
| "Zero TypeBool = VBool False"
| "Zero TypeInt = VInt 0"

fun as_string :: "val \<Rightarrow> string" where
  "as_string (VString s) = s"

fun as_bool :: "val \<Rightarrow> bool" where
  "as_bool (VBool b) = b"

fun as_int :: "val \<Rightarrow> int" where
  "as_int (VInt i) = i"

text \<open>
  The validators attached to attributes. \<open>IntBetween_accepts min max v\<close> holds when
  \<open>validation.IntBetween(min, max)\<close> reports no error for \<open>v\<close>.
\<close>

datatype validator = IntBetween int int | StringInSlice "string list" bool | ValidatePassword

definition IntBetween_accepts :: "int \<Rightarrow> int \<Rightarrow> val \<Rightarrow> bool" where
  "IntBetween_accepts lo hi v =
     (case v of VInt i \<Rightarrow> \<not> (i < lo \<or> i > hi) | _ \<Rightarrow> False)"

text \<open>One entry of an attribute schema (\<open>schema.Schema\<close>; the description text is left out).\<close>

record Attribute =
  Type :: ValueType
  Required :: bool
  Optional :: bool
  Computed :: bool
  Sensitive :: bool
  ForceNew :: bool
  Default :: "val option"
  ValidateFunc :: "validator option"

type_synonym SchemaMap = "string \<rightharpoonup> Attribute"

definition attribute :: "ValueType \<Rightarrow> Attribute" where
  "attribute t = \<lparr>Type = t, Required = False, Optional = False, Computed = False,
     Sensitive = False, ForceNew = False, Default = None, ValidateFunc = None\<rparr>"

definition schemaSchema :: SchemaMap where
  "schemaSchema = map_of
     [(''name'', (attribute TypeString)\<lparr>Required := True, ForceNew := True\<rparr>),
      (''database'', (attribute TypeString)\<lparr>Required := True, ForceNew := True\<rparr>),
      (''comment'', (attribute TypeString)\<lparr>Optional := True\<rparr>),
      (''is_transient'', (attribute TypeBool)
         \<lparr>Optional := True, Default := Some (VBool False), ForceNew := True\<rparr>),
      (''is_managed'', (attribute TypeBool)\<lparr>Optional := True, Default := Some (VBool False)\<rparr>),
      (''data_retention_days'', (attribute TypeInt)
         \<lparr>Optional := True, Default := Some (VInt 1), ValidateFunc := Some (IntBetween 0 90)\<rparr>)]"

definition SnowflakeReaderAccountType :: string where
  "SnowflakeReaderAccountType = ''READER''"

definition managedAccountProperties :: "string list" where
  "managedAccountProperties = [''admin_name'', ''admin_password'', ''type'', ''comment'']"

definition managedAccountSchema :: SchemaMap where
  "managedAccountSchema = map_of
     [(''name'', (attribute TypeString)\<lparr>Required := True, ForceNew := True\<rparr>),
      (''admin_name'', (attribute TypeString)\<lparr>Required := True, ForceNew := True\<rparr>),
      (''admin_password'', (attribute TypeString)
         \<lparr>Required := True, Sensitive := True, ValidateFunc := Some ValidatePassword,
          ForceNew := True\<rparr>),
      (''type'', (attribute TypeString)
         \<lparr>Optional := True, Default := Some (VString SnowflakeReaderAccountType),
          ValidateFunc := Some (StringInSlice [SnowflakeReaderAccountType] True),
          ForceNew := True\<rparr>),
      (''comment'', (attribute TypeString)\<lparr>Optional := True, ForceNew := True\<rparr>),
      (''cloud'', (attribute TypeString)\<lparr>Computed := True\<rparr>),
      (''region'', (attribute TypeString)\<lparr>Computed := True\<rparr>),
      (''locator'', (attribute TypeString)\<lparr>Computed := True\<rparr>),
      (''created_on'', (attribute TypeString)\<lparr>Computed := True\<rparr>),
      (''url'', (attribute TypeString)\<lparr>Computed := True\<rparr>)]"

section \<open>The attribute bag of the host framework\<close>

text \<open>
  \<open>schema.ResourceData\<close> belongs to the host framework, not to this repository; this
  is the part of it that the resource functions use. \<open>rd_state\<close> holds the attribute
  values recorded before the call, \<open>rd_diff\<close> the planned values (recorded state
  merged with the configuration, defaults applied by the framework), \<open>rd_set\<close> the
  values written with \<open>Set\<close>. \<open>rd_partial\<close> and \<open>rd_partialMap\<close> are partial state
  mode and the attribute names reported with \<open>SetPartial\<close>. The bag of a resource is
  read through that resource's schema (\<open>Schema()\<close> registers \<open>schemaSchema\<close> together
  with the schema functions, \<open>ManagedAccount()\<close> registers \<open>managedAccountSchema\<close>),
  so the schema is an argument of the accessors.
\<close>

record ResourceData =
  rd_id :: string
  rd_state :: "string \<rightharpoonup> val"
  rd_diff :: "string \<rightharpoonup> val"
  rd_set :: "string \<rightharpoonup> val"
  rd_partial :: bool
  rd_partialMap :: "string set"

definition ResourceId :: "ResourceData \<Rightarrow> string" where
  "ResourceId data = rd_id data"

definition SetId :: "ResourceData \<Rightarrow> string \<Rightarrow> ResourceData" where
  "SetId data v = data\<lparr>rd_id := v\<rparr>"

text \<open>A level of the bag holds a value for a name when the value has the declared kind.\<close>

definition readField :: "SchemaMap \<Rightarrow> (string \<rightharpoonup> val) \<Rightarrow> string \<Rightarrow> val option" where
  "readField s level key =
     (case s key of
        None \<Rightarrow> None
      | Some a \<Rightarrow>
          (case level key of
             None \<Rightarrow> None
           | Some v \<Rightarrow> if kind v = Some (Type a) then Some v else None))"

text \<open>Reading with everything merged: a value written with \<open>Set\<close> hides the planned one.\<close>

definition getRaw :: "SchemaMap \<Rightarrow> ResourceData \<Rightarrow> string \<Rightarrow> val option" where
  "getRaw s data key =
     (case readField s (rd_set data) key of
        Some v \<Rightarrow> Some v
      | None \<Rightarrow> readField s (rd_diff data) key)"

definition orZero :: "SchemaMap \<Rightarrow> string \<Rightarrow> val option \<Rightarrow> val" where
  "orZero s key r =
     (case s key of
        None \<Rightarrow> VNil
      | Some a \<Rightarrow> (case r of None \<Rightarrow> Zero (Type a) | Some v \<Rightarrow> v))"

definition Get :: "SchemaMap \<Rightarrow> ResourceData \<Rightarrow> string \<Rightarrow> val" where
  "Get s data key = orZero s key (getRaw s data key)"

text \<open>\<open>GetOk\<close>: the value, and whether it exists and is not the zero value of its kind.\<close>

definition GetOk :: "SchemaMap \<Rightarrow> ResourceData \<Rightarrow> string \<Rightarrow> val \<times> bool" where
  "GetOk s data key =
     (let v = Get s data key
      in (v, getRaw s data key \<noteq> None \<and> Some v \<noteq> map_option (\<lambda>a. Zero (Type a)) (s key)))"

text \<open>\<open>GetChange\<close>: the recorded value and the planned value.\<close>

definition GetChange :: "SchemaMap \<Rightarrow> ResourceData \<Rightarrow> string \<Rightarrow> val \<times> val" where
  "GetChange s data key =
     (orZero s key (readField s (rd_state data) key),
      orZero s key (readField s (rd_diff data) key))"

definition HasChange :: "SchemaMap \<Rightarrow> ResourceData \<Rightarrow> string \<Rightarrow> bool" where
  "HasChange s data key = (case GetChange s data key of (old, new) \<Rightarrow> old \<noteq> new)"

text \<open>\<open>Set\<close> rejects a name the schema does not declare and a value of another kind.\<close>

definition Set :: "SchemaMap \<Rightarrow> ResourceData \<Rightarrow> string \<Rightarrow> val \<Rightarrow> error option \<times> ResourceData" where
  "Set s data key v =
     (case s key of
        None \<Rightarrow> (Some (SetErr key), data)
      | Some a \<Rightarrow>
          if kind v = Some (Type a) then (None, data\<lparr>rd_set := (rd_set data)(key \<mapsto> v)\<rparr>)
          else (Some (SetErr key), data))"

text \<open>
  \<open>Partial\<close> switches partial state mode; switching it off discards the reported
  names. \<open>SetPartial\<close> reports a name, and does nothing outside partial state mode.
\<close>

definition Partial :: "ResourceData \<Rightarrow> bool \<Rightarrow> ResourceData" where
  "Partial data on =
     (if on then data\<lparr>rd_partial := True\<rparr>
      else data\<lparr>rd_partial := False, rd_partialMap := {}\<rparr>)"

definition SetPartial :: "ResourceData \<Rightarrow> string \<Rightarrow> ResourceData" where
  "SetPartial data k =
     (if rd_partial data then data\<lparr>rd_partialMap := insert k (rd_partialMap data)\<rparr> else data)"

text \<open>
  The bag that the framework hands to Create for a configuration. Nothing is recorded
  yet and there is no ID; the planned value of an attribute is the configured one or,
  where the configuration leaves the attribute out, the \<open>Default\<close> of its schema
  entry, if it has one.
\<close>

definition plannedValues :: "SchemaMap \<Rightarrow> (string \<rightharpoonup> val) \<Rightarrow> (string \<rightharpoonup> val)" where
  "plannedValues s config key =
     (case config key of
        Some v \<Rightarrow> Some v
      | None \<Rightarrow> (case s key of None \<Rightarrow> None | Some a \<Rightarrow> Default a))"

definition newResourceData :: "SchemaMap \<Rightarrow> (string \<rightharpoonup> val) \<Rightarrow> ResourceData" where
  "newResourceData s config =
     \<lparr>rd_id = [], rd_state = Map.empty, rd_diff = plannedValues s config, rd_set = Map.empty,
      rd_partial = False, rd_partialMap = {}\<rparr>"

section \<open>The statement builder\<close>

text \<open>
  Modelled from the spec: the statement builder of package \<open>snowflake\<close> and the
  executor \<open>DBExec\<close> are code of this repository whose files are not among the sources
  at hand. The spec describes the builder as a per-resource-kind fluent assembler:
  construction takes a resource name and a parent-scope qualifier, every \<open>With*\<close> or
  flag-setting call mutates the builder and affects only the statement ultimately
  rendered, and one of the render methods (CREATE, ALTER/CHANGE, SHOW, DROP) produces the
  SQL string. The text of the SQL is not fixed by the spec, so a rendered statement is
  represented by the render method together with the builder it was called on (and the
  argument of the call): two statements that are equal here are rendered to the same
  text by any renderer.
\<close>

record SchemaBuilder =
  sb_name :: string
  sb_db :: "string option"
  sb_comment :: "string option"
  sb_transient :: bool
  sb_managedAccess :: bool
  sb_dataRetentionDays :: "int option"

record Builder =
  b_entityType :: string
  b_name :: string

datatype sql =
    SchemaCreate SchemaBuilder
  | SchemaShow SchemaBuilder
  | SchemaDrop SchemaBuilder
  | SchemaChangeComment SchemaBuilder string
  | SchemaManage SchemaBuilder
  | SchemaUnmanage SchemaBuilder
  | SchemaChangeDataRetentionDays SchemaBuilder int
  | BuilderShow Builder
  | BuilderCreate Builder "(string \<times> val) list"

definition Schema :: "string \<Rightarrow> SchemaBuilder" where
  "Schema name = \<lparr>sb_name = name, sb_db = None, sb_comment = None, sb_transient = False,
     sb_managedAccess = False, sb_dataRetentionDays = None\<rparr>"

definition WithDB :: "SchemaBuilder \<Rightarrow> string \<Rightarrow> SchemaBuilder" where
  "WithDB sb db = sb\<lparr>sb_db := Some db\<rparr>"

definition WithComment :: "SchemaBuilder \<Rightarrow> string \<Rightarrow> SchemaBuilder" where
  "WithComment sb c = sb\<lparr>sb_comment := Some c\<rparr>"

definition Transient :: "SchemaBuilder \<Rightarrow> SchemaBuilder" where
  "Transient sb = sb\<lparr>sb_transient := True\<rparr>"

definition Managed :: "SchemaBuilder \<Rightarrow> SchemaBuilder" where
  "Managed sb = sb\<lparr>sb_managedAccess := True\<rparr>"

definition WithDataRetentionDays :: "SchemaBuilder \<Rightarrow> int \<Rightarrow> SchemaBuilder" where
  "WithDataRetentionDays sb d = sb\<lparr>sb_dataRetentionDays := Some d\<rparr>"

definition ManagedAccount :: "string \<Rightarrow> Builder" where
  "ManagedAccount name = \<lparr>b_entityType = ''MANAGED ACCOUNT'', b_name = name\<rparr>"

section \<open>The database handle and the other effects\<close>

text \<open>
  The database is outside the program. What it answers is a parameter of the model:
  \<open>execResult\<close> and \<open>queryResult\<close> give the outcome of executing a statement and of
  querying with it, and may depend on everything that happened before (\<open>events\<close>).
  A query yields an error or the rows of its result (\<open>Rows\<close>: the rows that the
  driver delivers, in order, and the error, if there is one, at which the iteration
  stops after them, for example a lost connection); \<open>scanSchemaRow\<close> and
  \<open>scanAccountRow\<close> are \<open>Scan\<close> of one row into the nine destinations of
  \<open>ReadSchema\<close> and into the eight destinations of \<open>ReadManagedAccount\<close>, which
  fails when the columns do not fit the destinations. The effects of a call are
  recorded in \<open>events\<close>, in order.
\<close>

datatype event = ExecEv sql | QueryEv sql | SleepEv int | LogEv string

record NullString =
  ns_String :: string
  ns_Valid :: bool

record NullInt64 =
  ni_Int64 :: int
  ni_Valid :: bool

record SchemaRow =
  row_createdOn :: NullString
  row_name :: NullString
  row_isDefault :: NullString
  row_isCurrent :: NullString
  row_databaseName :: NullString
  row_owner :: NullString
  row_comment :: NullString
  row_options :: NullString
  row_retentionTime :: NullInt64

record AccountRow =
  acc_name :: NullString
  acc_cloud :: NullString
  acc_region :: NullString
  acc_locator :: NullString
  acc_createdOn :: NullString
  acc_url :: NullString
  acc_isReader :: bool
  acc_comment :: NullString

record 'r Rows =
  fetched :: "'r list"
  fetchErr :: "error option"

record 'r world =
  execResult :: "event list \<Rightarrow> sql \<Rightarrow> error option"
  queryResult :: "event list \<Rightarrow> sql \<Rightarrow> error + 'r Rows"
  scanSchemaRow :: "'r \<Rightarrow> error + SchemaRow"
  scanAccountRow :: "'r \<Rightarrow> error + AccountRow"
  events :: "event list"

definition emit :: "event \<Rightarrow> 'r world \<Rightarrow> 'r world" where
  "emit ev meta = meta\<lparr>events := events meta @ [ev]\<rparr>"

text \<open>Modelled from the spec: \<open>DBExec\<close> issues the SQL string against the handle and
  returns the error of the execution, if any.\<close>

definition DBExec :: "'r world \<Rightarrow> sql \<Rightarrow> error option \<times> 'r world" where
  "DBExec db q = (execResult db (events db) q, emit (ExecEv q) db)"

text \<open>\<open>db.Query(q)\<close>: an error, or the rows.\<close>

definition Query :: "'r world \<Rightarrow> sql \<Rightarrow> (error + 'r Rows) \<times> 'r world" where
  "Query db q = (queryResult db (events db) q, emit (QueryEv q) db)"

text \<open>
  \<open>rows.Next()\<close>, called once on fresh rows: true when a first row has been fetched.
  It is false when the result has no row and also when fetching the first row failed;
  \<open>rows.Err()\<close>, read after a \<open>Next\<close> that returned false, tells the two apart.
\<close>

definition Next :: "'r Rows \<Rightarrow> bool" where
  "Next rows = (fetched rows \<noteq> [])"

definition Err :: "'r Rows \<Rightarrow> error option" where
  "Err rows = (if fetched rows = [] then fetchErr rows else None)"

text \<open>
  \<open>db.QueryRow(q)\<close> followed by \<open>row.Scan\<close>: \<open>QueryRow\<close> runs the query and keeps its
  error for \<open>Scan\<close>; \<open>Scan\<close> returns that error, or, when \<open>Next\<close> is false, the error
  of \<open>rows.Err()\<close> if there is one and \<open>sql.ErrNoRows\<close> otherwise, or scans the
  first row.
\<close>

definition QueryRow_Scan :: "('r \<Rightarrow> error + 'a) \<Rightarrow> 'r world \<Rightarrow> sql \<Rightarrow> (error + 'a) \<times> 'r world" where
  "QueryRow_Scan scan db q =
     (case Query db q of
        (Inl err, db') \<Rightarrow> (Inl err, db')
      | (Inr rows, db') \<Rightarrow>
          if \<not> Next rows then
            (case Err rows of
               Some err \<Rightarrow> (Inl err, db')
             | None \<Rightarrow> (Inl ErrNoRows, db'))
          else (scan (hd (fetched rows)), db'))"

text \<open>\<open>time.Second\<close> in nanoseconds, the unit of \<open>time.Duration\<close>.\<close>

definition Second :: int where
  "Second = 1000000000"

section \<open>The schema resource\<close>

text \<open>
  A resource function returns its error (\<open>None\<close> for \<open>nil\<close>) together with the bag
  and the world as it leaves them: the bag and the database are changed in place by
  the source, also on the paths that return an error.
\<close>

type_synonym 'r result = "error option \<times> ResourceData \<times> 'r world"

subsection \<open>ReadSchema\<close>

text \<open>The loop over the options of \<open>ReadSchema\<close>, with its \<open>switch\<close>.\<close>

fun ReadSchema_options :: "ResourceData \<Rightarrow> string list \<Rightarrow> error option \<times> ResourceData" where
  "ReadSchema_options data [] = (None, data)"
| "ReadSchema_options data (opt # opts) =
     (if opt = ''TRANSIENT'' then
        (case Set schemaSchema data ''is_transient'' (VBool True) of
           (Some err, data') \<Rightarrow> (Some err, data')
         | (None, data') \<Rightarrow> ReadSchema_options data' opts)
      else if opt = ''MANAGED'' then
        (case Set schemaSchema data ''is_managed'' (VBool True) of
           (Some err, data') \<Rightarrow> (Some err, data')
         | (None, data') \<Rightarrow> ReadSchema_options data' opts)
      else ReadSchema_options data opts)"

text \<open>\<open>ReadSchema\<close> from the first \<open>data.Set\<close> on: the scanned row is written to the bag.\<close>

definition ReadSchema_fields :: "SchemaRow \<Rightarrow> ResourceData \<Rightarrow> error option \<times> ResourceData" where
  "ReadSchema_fields row data =
     (case Set schemaSchema data ''name'' (VString (ns_String (row_name row))) of
        (Some err, data) \<Rightarrow> (Some err, data)
      | (None, data) \<Rightarrow>
     (case Set schemaSchema data ''database'' (VString (ns_String (row_databaseName row))) of
        (Some err, data) \<Rightarrow> (Some err, data)
      | (None, data) \<Rightarrow>
     (case Set schemaSchema data ''comment'' (VString (ns_String (row_comment row))) of
        (Some err, data) \<Rightarrow> (Some err, data)
      | (None, data) \<Rightarrow>
     (case Set schemaSchema data ''data_retention_days'' (VInt (ni_Int64 (row_retentionTime row))) of
        (Some err, data) \<Rightarrow> (Some err, data)
      | (None, data) \<Rightarrow>
     (case Set schemaSchema data ''is_transient'' (VBool False) of
        (Some err, data) \<Rightarrow> (Some err, data)
      | (None, data) \<Rightarrow>
     (case Set schemaSchema data ''is_managed'' (VBool False) of
        (Some err, data) \<Rightarrow> (Some err, data)
      | (None, data) \<Rightarrow>
     (let opts = ns_String (row_options row)
      in if opts \<noteq> [] then ReadSchema_options data (Split opts '', '')
         else (None, data))))))))"

definition ReadSchema :: "ResourceData \<Rightarrow> 'r world \<Rightarrow> 'r result" where
  "ReadSchema data db =
     (case splitSchemaID (ResourceId data) of
        Inl err \<Rightarrow> (Some err, data, db)
      | Inr (dbName, schema) \<Rightarrow>
          (let q = SchemaShow (WithDB (Schema schema) dbName)
           in case QueryRow_Scan (scanSchemaRow db) db q of
                (Inl err, db') \<Rightarrow> (Some err, data, db')
              | (Inr row, db') \<Rightarrow>
                  (case ReadSchema_fields row data of (err, data') \<Rightarrow> (err, data', db'))))"

subsection \<open>CreateSchema\<close>

text \<open>The builder of \<open>CreateSchema\<close> as it stands when \<open>builder.Create()\<close> is called.\<close>

definition CreateSchema_builder :: "ResourceData \<Rightarrow> SchemaBuilder" where
  "CreateSchema_builder data =
     (let name = as_string (Get schemaSchema data ''name'');
          database = as_string (Get schemaSchema data ''database'');
          builder = WithDB (Schema name) database;
          builder = (case GetOk schemaSchema data ''comment'' of
                       (v, ok) \<Rightarrow> if ok then WithComment builder (as_string v) else builder);
          builder = (case GetOk schemaSchema data ''is_transient'' of
                       (v, ok) \<Rightarrow> if ok \<and> as_bool v then Transient builder else builder);
          builder = (case GetOk schemaSchema data ''is_managed'' of
                       (v, ok) \<Rightarrow> if ok \<and> as_bool v then Managed builder else builder);
          builder = (case GetOk schemaSchema data ''data_retention_days'' of
                       (v, ok) \<Rightarrow> if ok then WithDataRetentionDays builder (as_int v) else builder)
      in builder)"

definition CreateSchema :: "ResourceData \<Rightarrow> 'r world \<Rightarrow> 'r result" where
  "CreateSchema data db =
     (let name = as_string (Get schemaSchema data ''name'');
          database = as_string (Get schemaSchema data ''database'');
          q = SchemaCreate (CreateSchema_builder data)
      in case DBExec db q of
           (Some err, db') \<Rightarrow> (Some (Wrapf err (''error creating schema '' @ name)), data, db')
         | (None, db') \<Rightarrow> ReadSchema (SetId data (database @ ''|'' @ name)) db')"

subsection \<open>UpdateSchema\<close>

text \<open>The three \<open>HasChange\<close> blocks of \<open>UpdateSchema\<close>, in the order of the source.\<close>

definition UpdateSchema_comment :: "SchemaBuilder \<Rightarrow> ResourceData \<Rightarrow> 'r world \<Rightarrow> 'r result" where
  "UpdateSchema_comment builder data db =
     (if HasChange schemaSchema data ''comment'' then
        (case GetChange schemaSchema data ''comment'' of
           (old, comment) \<Rightarrow>
             (let q = SchemaChangeComment builder (as_string comment)
              in case DBExec db q of
                   (Some err, db') \<Rightarrow>
                     (Some (Wrapf err (''error updating schema comment on '' @ ResourceId data)), data, db')
                 | (None, db') \<Rightarrow> (None, SetPartial data ''comment'', db')))
      else (None, data, db))"

definition UpdateSchema_is_managed :: "SchemaBuilder \<Rightarrow> ResourceData \<Rightarrow> 'r world \<Rightarrow> 'r result" where
  "UpdateSchema_is_managed builder data db =
     (if HasChange schemaSchema data ''is_managed'' then
        (case GetChange schemaSchema data ''is_managed'' of
           (old, managed) \<Rightarrow>
             (let q = (if as_bool managed then SchemaManage builder else SchemaUnmanage builder)
              in case DBExec db q of
                   (Some err, db') \<Rightarrow>
                     (Some (Wrapf err (''error changing management state on '' @ ResourceId data)), data, db')
                 | (None, db') \<Rightarrow> (None, SetPartial data ''is_managed'', db')))
      else (None, data, db))"

definition UpdateSchema_data_retention_days ::
    "SchemaBuilder \<Rightarrow> ResourceData \<Rightarrow> 'r world \<Rightarrow> 'r result" where
  "UpdateSchema_data_retention_days builder data db =
     (if HasChange schemaSchema data ''data_retention_days'' then
        (case GetChange schemaSchema data ''data_retention_days'' of
           (old, days) \<Rightarrow>
             (let q = SchemaChangeDataRetentionDays builder (as_int days)
              in case DBExec db q of
                   (Some err, db') \<Rightarrow>
                     (Some (Wrapf err (''error updating data retention days on '' @ ResourceId data)), data, db')
                 | (None, db') \<Rightarrow> (None, data, db')))
      else (None, data, db))"

definition UpdateSchema :: "ResourceData \<Rightarrow> 'r world \<Rightarrow> 'r result" where
  "UpdateSchema data0 db =
     (let data = Partial data0 True
      in case splitSchemaID (ResourceId data) of
           Inl err \<Rightarrow> (Some err, data, db)
         | Inr (dbName, schema) \<Rightarrow>
             (let builder = WithDB (Schema schema) dbName
              in case UpdateSchema_comment builder data db of
                   (Some err, data, db) \<Rightarrow> (Some err, data, db)
                 | (None, data, db) \<Rightarrow>
              (case UpdateSchema_is_managed builder data db of
                   (Some err, data, db) \<Rightarrow> (Some err, data, db)
                 | (None, data, db) \<Rightarrow>
              (let data = Partial data False
               in case UpdateSchema_data_retention_days builder data db of
                    (Some err, data, db) \<Rightarrow> (Some err, data, db)
                  | (None, data, db) \<Rightarrow> ReadSchema data db))))"

subsection \<open>DeleteSchema and SchemaExists\<close>

definition DeleteSchema :: "ResourceData \<Rightarrow> 'r world \<Rightarrow> 'r result" where
  "DeleteSchema data db =
     (case splitSchemaID (ResourceId data) of
        Inl err \<Rightarrow> (Some err, data, db)
      | Inr (dbName, schema) \<Rightarrow>
          (let q = SchemaDrop (WithDB (Schema schema) dbName)
           in case DBExec db q of
                (Some err, db') \<Rightarrow> (Some (Wrapf err (''error deleting schema '' @ ResourceId data)), data, db')
              | (None, db') \<Rightarrow> (None, SetId data [], db')))"

definition SchemaExists :: "ResourceData \<Rightarrow> 'r world \<Rightarrow> (bool \<times> error option) \<times> 'r world" where
  "SchemaExists data db =
     (case splitSchemaID (ResourceId data) of
        Inl err \<Rightarrow> ((False, Some err), db)
      | Inr (dbName, schema) \<Rightarrow>
          (let q = SchemaShow (WithDB (Schema schema) dbName)
           in case Query db q of
                (Inl err, db') \<Rightarrow> ((False, Some err), db')
              | (Inr rows, db') \<Rightarrow>
                  if Next rows then ((True, None), db') else ((False, None), db')))"

section \<open>The managed account resource\<close>

definition ReadManagedAccount_fields :: "AccountRow \<Rightarrow> ResourceData \<Rightarrow> error option \<times> ResourceData" where
  "ReadManagedAccount_fields row data =
     (case Set managedAccountSchema data ''name'' (VString (ns_String (acc_name row))) of
        (Some err, data) \<Rightarrow> (Some err, data)
      | (None, data) \<Rightarrow>
     (case Set managedAccountSchema data ''cloud'' (VString (ns_String (acc_cloud row))) of
        (Some err, data) \<Rightarrow> (Some err, data)
      | (None, data) \<Rightarrow>
     (case Set managedAccountSchema data ''region'' (VString (ns_String (acc_region row))) of
        (Some err, data) \<Rightarrow> (Some err, data)
      | (None, data) \<Rightarrow>
     (case Set managedAccountSchema data ''locator'' (VString (ns_String (acc_locator row))) of
        (Some err, data) \<Rightarrow> (Some err, data)
      | (None, data) \<Rightarrow>
     (case Set managedAccountSchema data ''created_on'' (VString (ns_String (acc_createdOn row))) of
        (Some err, data) \<Rightarrow> (Some err, data)
      | (None, data) \<Rightarrow>
     (case Set managedAccountSchema data ''url'' (VString (ns_String (acc_url row))) of
        (Some err, data) \<Rightarrow> (Some err, data)
      | (None, data) \<Rightarrow>
     (if acc_isReader row then
        (case Set managedAccountSchema data ''type'' (VString ''READER'') of
           (Some err, data) \<Rightarrow> (Some err, data)
         | (None, data) \<Rightarrow>
             Set managedAccountSchema data ''comment'' (VString (ns_String (acc_comment row))))
      else (Some (Errorf ''Unable to determine the account type''), data))))))))"

definition ReadManagedAccount :: "ResourceData \<Rightarrow> 'r world \<Rightarrow> 'r result" where
  "ReadManagedAccount data db =
     (let id = ResourceId data;
          stmt = BuilderShow (ManagedAccount id)
      in case QueryRow_Scan (scanAccountRow db) db stmt of
           (Inl err, db') \<Rightarrow> (Some err, data, db')
         | (Inr row, db') \<Rightarrow>
             (case ReadManagedAccount_fields row data of (err, data') \<Rightarrow> (err, data', db')))"

definition initialReadManagedAccount :: "ResourceData \<Rightarrow> 'r world \<Rightarrow> 'r result" where
  "initialReadManagedAccount data meta =
     (let meta = emit (LogEv ''[INFO] sleeping to give the locator a chance to be generated'') meta;
          meta = emit (SleepEv (10 * Second)) meta
      in ReadManagedAccount data meta)"

definition ManagedAccountExists :: "ResourceData \<Rightarrow> 'r world \<Rightarrow> (bool \<times> error option) \<times> 'r world" where
  "ManagedAccountExists data db =
     (let id = ResourceId data;
          stmt = BuilderShow (ManagedAccount id)
      in case Query db stmt of
           (Inl err, db') \<Rightarrow> ((False, Some err), db')
         | (Inr rows, db') \<Rightarrow>
             if Next rows then ((True, None), db') else ((False, None), db'))"

text \<open>
  Modelled from the spec: \<open>CreateResource\<close>, the generic Create that
  \<open>CreateManagedAccount\<close> instantiates, is not among the sources at hand. The spec's
  Create reads the required and optional attributes from the bag, builds a CREATE
  statement, executes it, stores the ID, then immediately invokes the given read
  function; an execution error is wrapped with resource-name context and returned,
  with no retry. The ID of a managed account is its name (\<open>ReadManagedAccount\<close> builds
  its statement from the ID alone).
\<close>

definition CreateResource_statement ::
    "string list \<Rightarrow> SchemaMap \<Rightarrow> (string \<Rightarrow> Builder) \<Rightarrow> ResourceData \<Rightarrow> sql" where
  "CreateResource_statement properties s builder data =
     (let name = as_string (Get s data ''name'');
          props = concat (map (\<lambda>field. case GetOk s data field of
                                 (v, ok) \<Rightarrow> if ok then [(field, v)] else []) properties)
      in BuilderCreate (builder name) props)"

text \<open>Modelled from the spec: the generic Create itself (see above).\<close>

definition CreateResource ::
    "string \<Rightarrow> string list \<Rightarrow> SchemaMap \<Rightarrow> (string \<Rightarrow> Builder) \<Rightarrow>
     (ResourceData \<Rightarrow> 'r world \<Rightarrow> 'r result) \<Rightarrow> ResourceData \<Rightarrow> 'r world \<Rightarrow> 'r result" where
  "CreateResource t properties s builder read data db =
     (let name = as_string (Get s data ''name'');
          q = CreateResource_statement properties s builder data
      in case DBExec db q of
           (Some err, db') \<Rightarrow> (Some (Wrapf err (''error creating '' @ name)), data, db')
         | (None, db') \<Rightarrow> read (SetId data name) db')"

definition CreateManagedAccount :: "ResourceData \<Rightarrow> 'r world \<Rightarrow> 'r result" where
  "CreateManagedAccount data meta =
     CreateResource ''this does not seem to be used'' managedAccountProperties
       managedAccountSchema ManagedAccount initialReadManagedAccount data meta"

section \<open>Example bags and databases\<close>

text \<open>
  Concrete inputs on which the theorems below are exercised. \<open>schema_db\<close> and
  \<open>account_db\<close> are databases whose rows scan into the destinations of the schema
  resource and of the managed account resource; every execution answers \<open>exec_answer\<close>
  and a query answers \<open>query_answer\<close> of what happened before, an error or rows that
  are all delivered.
\<close>

definition delivered :: "error + 'r list \<Rightarrow> error + 'r Rows" where
  "delivered answer =
     (case answer of Inl err \<Rightarrow> Inl err | Inr rs \<Rightarrow> Inr \<lparr>fetched = rs, fetchErr = None\<rparr>)"

definition schema_db :: "(sql \<Rightarrow> error option) \<Rightarrow> (event list \<Rightarrow> error + SchemaRow list) \<Rightarrow> SchemaRow world" where
  "schema_db exec_answer query_answer =
     \<lparr>execResult = (\<lambda>h q. exec_answer q), queryResult = (\<lambda>h q. delivered (query_answer h)),
      scanSchemaRow = Inr,
      scanAccountRow = (\<lambda>r. Inl (DriverErr ''sql: expected 9 destination arguments in Scan, not 8'')),
      events = []\<rparr>"

definition account_db :: "(sql \<Rightarrow> error option) \<Rightarrow> (event list \<Rightarrow> error + AccountRow list) \<Rightarrow> AccountRow world" where
  "account_db exec_answer query_answer =
     \<lparr>execResult = (\<lambda>h q. exec_answer q), queryResult = (\<lambda>h q. delivered (query_answer h)),
      scanSchemaRow = (\<lambda>r. Inl (DriverErr ''sql: expected 8 destination arguments in Scan, not 9'')),
      scanAccountRow = Inr,
      events = []\<rparr>"

definition text_col :: "string \<Rightarrow> NullString" where
  "text_col s = \<lparr>ns_String = s, ns_Valid = True\<rparr>"

text \<open>The row that \<open>SHOW SCHEMAS\<close> gives for schema \<open>S\<close> of database \<open>D\<close>, with the given options.\<close>

definition schema_row :: "string \<Rightarrow> SchemaRow" where
  "schema_row opts =
     \<lparr>row_createdOn = text_col ''2019-09-01'', row_name = text_col ''S'',
      row_isDefault = text_col ''N'', row_isCurrent = text_col ''N'',
      row_databaseName = text_col ''D'', row_owner = text_col ''SYSADMIN'',
      row_comment = text_col [], row_options = text_col opts,
      row_retentionTime = \<lparr>ni_Int64 = 5, ni_Valid = True\<rparr>\<rparr>"

definition account_row :: "bool \<Rightarrow> AccountRow" where
  "account_row reader =
     \<lparr>acc_name = text_col ''A'', acc_cloud = text_col ''aws'', acc_region = text_col ''us-west-2'',
      acc_locator = text_col ''XY12345'', acc_createdOn = text_col ''2019-09-01'',
      acc_url = text_col ''https://xy12345.example'', acc_isReader = reader,
      acc_comment = text_col []\<rparr>"

text \<open>A bag with the given ID, recorded values and planned values.\<close>

definition bag :: "string \<Rightarrow> (string \<times> val) list \<Rightarrow> (string \<times> val) list \<Rightarrow> ResourceData" where
  "bag i recorded planned =
     \<lparr>rd_id = i, rd_state = map_of recorded, rd_diff = map_of planned, rd_set = Map.empty,
      rd_partial = False, rd_partialMap = {}\<rparr>"

text \<open>Schema \<open>S\<close> of database \<open>D\<close>: transient, retention of 5 days; nothing recorded yet.\<close>

definition new_schema :: ResourceData where
  "new_schema = bag [] []
     [(''name'', VString ''S''), (''database'', VString ''D''), (''is_transient'', VBool True),
      (''is_managed'', VBool False), (''data_retention_days'', VInt 5)]"

text \<open>The same schema once created, with no change planned.\<close>

definition existing_schema :: ResourceData where
  "existing_schema = bag ''D|S''
     [(''name'', VString ''S''), (''database'', VString ''D''), (''is_transient'', VBool True),
      (''is_managed'', VBool False), (''data_retention_days'', VInt 5)]
     [(''name'', VString ''S''), (''database'', VString ''D''), (''is_transient'', VBool True),
      (''is_managed'', VBool False), (''data_retention_days'', VInt 5)]"

definition existing_account :: ResourceData where
  "existing_account = bag ''A''
     [(''name'', VString ''A''), (''admin_name'', VString ''admin''),
      (''admin_password'', VString ''Secret123456''), (''type'', VString ''READER'')]
     [(''name'', VString ''A''), (''admin_name'', VString ''admin''),
      (''admin_password'', VString ''Secret123456''), (''type'', VString ''READER'')]"

text \<open>The schema with a new comment and a new retention planned.\<close>

definition changed_schema :: ResourceData where
  "changed_schema = bag ''D|S''
     [(''name'', VString ''S''), (''database'', VString ''D''), (''comment'', VString ''old''),
      (''is_transient'', VBool True), (''is_managed'', VBool False),
      (''data_retention_days'', VInt 1)]
     [(''name'', VString ''S''), (''database'', VString ''D''), (''comment'', VString ''new''),
      (''is_transient'', VBool True), (''is_managed'', VBool False),
      (''data_retention_days'', VInt 5)]"

text \<open>A database that refuses to change the retention and executes everything else.\<close>

fun retention_refused :: "sql \<Rightarrow> error option" where
  "retention_refused (SchemaChangeDataRetentionDays sb n) = Some (DriverErr ''timeout'')"
| "retention_refused q = None"

text \<open>A managed account to create.\<close>

definition new_account :: ResourceData where
  "new_account = bag [] []
     [(''name'', VString ''A''), (''admin_name'', VString ''admin''),
      (''admin_password'', VString ''Secret123456''), (''type'', VString ''READER'')]"

text \<open>
  A database in which the schema is managed when first queried and has lost the option
  by the time of the next query.
\<close>

definition managed_then_plain :: "SchemaRow world" where
  "managed_then_plain =
     schema_db (\<lambda>q. None) (\<lambda>h. if h = [] then Inr [schema_row ''MANAGED''] else Inr [schema_row []])"

text \<open>
  Two configurations of the schema: one that asks for a retention of 0 days and one that
  does not mention the retention.
\<close>

definition zero_retention_config :: "string \<rightharpoonup> val" where
  "zero_retention_config = map_of
     [(''name'', VString ''S''), (''database'', VString ''D''), (''data_retention_days'', VInt 0)]"

definition no_retention_config :: "string \<rightharpoonup> val" where
  "no_retention_config = map_of [(''name'', VString ''S''), (''database'', VString ''D'')]"

text \<open>
  What the server reports for the schema when an administrator has made it managed,
  commented it and set its retention to 7 days.
\<close>

definition server_row :: SchemaRow where
  "server_row = (schema_row ''TRANSIENT, MANAGED'')
     \<lparr>row_comment := text_col ''set by an administrator'',
      row_retentionTime := \<lparr>ni_Int64 = 7, ni_Valid = True\<rparr>\<rparr>"

text \<open>
  The database that accepts every query and then fails to fetch the first row of the
  result.
\<close>

definition fetch_failing :: "'r world \<Rightarrow> error \<Rightarrow> 'r world" where
  "fetch_failing db err = db\<lparr>queryResult := (\<lambda>h q. Inr \<lparr>fetched = [], fetchErr = Some err\<rparr>)\<rparr>"

section \<open>Unfolding the model on concrete inputs\<close>

text \<open>The definitions that the simplifier unfolds to run the model on the examples.\<close>

lemmas example_defs =
  new_schema_def existing_schema_def changed_schema_def existing_account_def new_account_def
  managed_then_plain_def zero_retention_config_def
  no_retention_config_def server_row_def fetch_failing_def delivered_def
  bag_def schema_db_def account_db_def schema_row_def account_row_def text_col_def

lemmas bag_defs =
  ResourceId_def SetId_def Get_def GetOk_def getRaw_def readField_def orZero_def Set_def
  GetChange_def HasChange_def Partial_def SetPartial_def schemaSchema_def
  managedAccountSchema_def managedAccountProperties_def SnowflakeReaderAccountType_def
  attribute_def plannedValues_def newResourceData_def

lemmas world_defs =
  DBExec_def Query_def QueryRow_Scan_def Next_def Err_def emit_def Second_def
  Schema_def WithDB_def WithComment_def Transient_def Managed_def WithDataRetentionDays_def
  ManagedAccount_def

lemmas resource_defs =
  splitSchemaID_def schemaID_def ReadSchema_def ReadSchema_fields_def CreateSchema_def
  CreateSchema_builder_def UpdateSchema_def UpdateSchema_comment_def UpdateSchema_is_managed_def
  UpdateSchema_data_retention_days_def DeleteSchema_def SchemaExists_def
  ReadManagedAccount_def ReadManagedAccount_fields_def initialReadManagedAccount_def
  ManagedAccountExists_def CreateResource_def CreateResource_statement_def
  CreateManagedAccount_def

section \<open>Splitting strings and the ID codec\<close>

lemma Split_Nil: "sep \<noteq> [] \<Longrightarrow> Split [] sep = [[]]"
  by (simp add: Split.simps)

lemma Split_char_Cons:
  "Split (x # xs) [c] =
     (if x = c then [] # Split xs [c]
      else (case Split xs [c] of [] \<Rightarrow> [[x]] | w # ws \<Rightarrow> (x # w) # ws))"
  by (subst Split.simps) (simp split: list.splits)

lemma Split_char_not_Nil: "Split s [c] \<noteq> []"
  by (induction s) (auto simp: Split_Nil Split_char_Cons split: list.splits)

lemma length_Split_char: "length (Split s [c]) = Suc (count_list s c)"
  by (induction s) (auto simp: Split_Nil Split_char_Cons Split_char_not_Nil split: list.splits)

lemma Split_char_absent: "c \<notin> set s \<Longrightarrow> Split s [c] = [s]"
  by (induction s) (auto simp: Split_Nil Split_char_Cons)

lemma Split_char_append:
  "c \<notin> set a \<Longrightarrow> Split (a @ c # b) [c] = a # Split b [c]"
  by (induction a) (auto simp: Split_char_Cons)

lemma Split_char_single: "Split v [c] = [b] \<Longrightarrow> v = b \<and> c \<notin> set b"
  by (induction v arbitrary: b)
     (auto simp: Split_Nil Split_char_Cons Split_char_not_Nil split: if_splits list.splits)

lemma Split_char_pair:
  "Split v [c] = [a, b] \<Longrightarrow> v = a @ c # b \<and> c \<notin> set a \<and> c \<notin> set b"
proof (induction v arbitrary: a)
  case Nil
  then show ?case by (simp add: Split_Nil)
next
  case (Cons x xs)
  show ?case
  proof (cases "x = c")
    case True
    with Cons.prems have "a = []" and "Split xs [c] = [b]"
      by (simp_all add: Split_char_Cons)
    with True Split_char_single [of xs c b] show ?thesis by simp
  next
    case False
    with Cons.prems obtain w where "a = x # w" and "Split xs [c] = [w, b]"
      by (auto simp: Split_char_Cons split: list.splits)
    with False Cons.IH [of w] show ?thesis by simp
  qed
qed

lemma Split_char_once:
  "count_list v c = 1 \<Longrightarrow>
   Split v [c] = [takeWhile (\<lambda>x. x \<noteq> c) v, tl (dropWhile (\<lambda>x. x \<noteq> c) v)]"
  by (induction v) (auto simp: Split_char_Cons Split_char_absent count_list_0_iff)

lemma splitSchemaID_Inr_iff:
  "splitSchemaID v = Inr (a, b) \<longleftrightarrow> Split v ''|'' = [a, b]"
proof
  assume l: "splitSchemaID v = Inr (a, b)"
  then have "length (Split v ''|'') = 2"
    by (auto simp: splitSchemaID_def Let_def split: if_splits)
  then obtain x y where xy: "Split v ''|'' = [x, y]"
    by (auto simp: length_Suc_conv numeral_2_eq_2)
  with l show "Split v ''|'' = [a, b]"
    by (simp add: splitSchemaID_def)
next
  assume "Split v ''|'' = [a, b]"
  then show "splitSchemaID v = Inr (a, b)"
    by (simp add: splitSchemaID_def)
qed

lemma splitSchemaID_Inl_iff:
  "splitSchemaID v = Inl e \<longleftrightarrow>
     length (Split v ''|'') \<noteq> 2 \<and> e = Errorf (''ID '' @ v @ '' is invalid'')"
  by (auto simp: splitSchemaID_def Let_def)

text \<open>
  Claim C4. Encoding a database name and a schema name as \<open>database|name\<close> and
  decoding the result gives the two names back exactly when the ID is a well-formed
  two-component ID, that is when neither name contains the pipe; a string that
  \<open>splitSchemaID\<close> decodes is the encoding of its two components; and every string
  whose number of pipe-delimited components is not 2 is rejected with the error
  \<open>ID <v> is invalid\<close>, which names the offending value.
\<close>

theorem splitSchemaID_roundtrip:
  "(splitSchemaID (schemaID database name) = Inr (database, name)
      \<longleftrightarrow> CHR ''|'' \<notin> set database \<and> CHR ''|'' \<notin> set name)
   \<and> (splitSchemaID v = Inr (a, b) \<longrightarrow> schemaID a b = v)
   \<and> (length (Split v ''|'') \<noteq> 2 \<longrightarrow>
        splitSchemaID v = Inl (Errorf (''ID '' @ v @ '' is invalid'')))"
proof (intro conjI impI iffI)
  assume "splitSchemaID (schemaID database name) = Inr (database, name)"
  then have "Split (database @ CHR ''|'' # name) ''|'' = [database, name]"
    by (simp add: splitSchemaID_Inr_iff schemaID_def)
  from Split_char_pair [OF this]
  show "CHR ''|'' \<notin> set database" and "CHR ''|'' \<notin> set name" by simp_all
next
  assume "CHR ''|'' \<notin> set database \<and> CHR ''|'' \<notin> set name"
  then show "splitSchemaID (schemaID database name) = Inr (database, name)"
    by (simp add: splitSchemaID_Inr_iff schemaID_def Split_char_append Split_char_absent)
next
  assume "splitSchemaID v = Inr (a, b)"
  then have "Split v ''|'' = [a, b]" by (simp add: splitSchemaID_Inr_iff)
  from Split_char_pair [OF this] show "schemaID a b = v" by (simp add: schemaID_def)
next
  assume "length (Split v ''|'') \<noteq> 2"
  then show "splitSchemaID v = Inl (Errorf (''ID '' @ v @ '' is invalid''))"
    by (simp add: splitSchemaID_Inl_iff)
qed

theorem splitSchemaID_roundtrip_witness:
  "splitSchemaID (schemaID ''D'' ''S'') = Inr (''D'', ''S'')
   \<and> splitSchemaID ''D|S'' = Inr (''D'', ''S'') \<and> schemaID ''D'' ''S'' = ''D|S''
   \<and> length (Split ''a|b|c'' ''|'') \<noteq> 2
   \<and> splitSchemaID ''a|b|c'' = Inl (Errorf ''ID a|b|c is invalid'')"
  using splitSchemaID_roundtrip [of "''D''" "''S''" "''D|S''" "''D''" "''S''"]
    splitSchemaID_roundtrip [of "''D''" "''S''" "''a|b|c''" "''D''" "''S''"]
  by (simp add: schemaID_def splitSchemaID_def Split.simps)

text \<open>
  Claim C10. \<open>splitSchemaID\<close> succeeds exactly on the strings that contain one pipe
  character, and then returns what stands before and after the pipe, whatever it is:
  \<open>|\<close> decodes to two empty names. Any other number of pipes gives the error. No
  other validation of the components takes place.
\<close>

theorem splitSchemaID_one_pipe:
  "((\<exists>a b. splitSchemaID v = Inr (a, b)) \<longleftrightarrow> count_list v (CHR ''|'') = 1)
   \<and> (count_list v (CHR ''|'') = 1 \<longrightarrow>
        splitSchemaID v = Inr (takeWhile (\<lambda>c. c \<noteq> CHR ''|'') v,
                               tl (dropWhile (\<lambda>c. c \<noteq> CHR ''|'') v)))
   \<and> (count_list v (CHR ''|'') \<noteq> 1 \<longrightarrow>
        splitSchemaID v = Inl (Errorf (''ID '' @ v @ '' is invalid'')))
   \<and> splitSchemaID ''|'' = Inr ('''', '''')"
proof -
  have len: "length (Split v ''|'') = 2 \<longleftrightarrow> count_list v (CHR ''|'') = 1"
    by (simp add: length_Split_char)
  have one: "splitSchemaID v = Inr (takeWhile (\<lambda>c. c \<noteq> CHR ''|'') v,
                               tl (dropWhile (\<lambda>c. c \<noteq> CHR ''|'') v))"
    if "count_list v (CHR ''|'') = 1"
    using Split_char_once [OF that] by (simp add: splitSchemaID_Inr_iff)
  have other: "splitSchemaID v = Inl (Errorf (''ID '' @ v @ '' is invalid''))"
    if "count_list v (CHR ''|'') \<noteq> 1"
    using that len by (simp add: splitSchemaID_Inl_iff)
  have "(\<exists>a b. splitSchemaID v = Inr (a, b)) \<longleftrightarrow> count_list v (CHR ''|'') = 1"
    using one other by (cases "count_list v (CHR ''|'') = 1") auto
  moreover have "splitSchemaID ''|'' = Inr ('''', '''')"
    by (simp add: splitSchemaID_def Split.simps)
  ultimately show ?thesis using one other by blast
qed

theorem splitSchemaID_one_pipe_witness:
  "count_list ''a|'' (CHR ''|'') = 1 \<and> splitSchemaID ''a|'' = Inr (''a'', '''')
   \<and> count_list ''a|b|c'' (CHR ''|'') \<noteq> 1
   \<and> splitSchemaID ''a|b|c'' = Inl (Errorf ''ID a|b|c is invalid'')
   \<and> count_list ''ab'' (CHR ''|'') \<noteq> 1
   \<and> splitSchemaID ''ab'' = Inl (Errorf ''ID ab is invalid'')"
  using splitSchemaID_one_pipe [of "''a|''"] splitSchemaID_one_pipe [of "''a|b|c''"]
    splitSchemaID_one_pipe [of "''ab''"]
  by simp

section \<open>DeleteSchema, the Exists functions and the errors of Read\<close>

lemma QueryRow_Scan_cases:
  "QueryRow_Scan scan db q =
     ((case queryResult db (events db) q of
         Inl err \<Rightarrow> Inl err
       | Inr rows \<Rightarrow>
           (case fetched rows of
              [] \<Rightarrow> (case fetchErr rows of Some err \<Rightarrow> Inl err | None \<Rightarrow> Inl ErrNoRows)
            | r # rs \<Rightarrow> scan r)), emit (QueryEv q) db)"
  by (simp add: QueryRow_Scan_def Query_def Next_def Err_def
           split: sum.splits list.splits option.splits)

text \<open>
  Claim C7. \<open>DeleteSchema\<close> parses the ID, builds the DROP statement and executes
  it. When the ID does not parse, the parse error is returned, nothing is executed and
  the bag is unchanged; when the execution fails, the error is returned wrapped with
  the ID and the bag is unchanged; when it succeeds, the ID is set to the empty string.
  So an error leaves the bag, and with it the ID, as it was, and the ID is cleared
  only on success.
\<close>

theorem DeleteSchema_clears_id_on_success:
  "(\<forall>err. splitSchemaID (ResourceId data) = Inl err \<longrightarrow> DeleteSchema data db = (Some err, data, db))
   \<and> (\<forall>dbName schema q. splitSchemaID (ResourceId data) = Inr (dbName, schema) \<longrightarrow>
          q = SchemaDrop (WithDB (Schema schema) dbName) \<longrightarrow>
          (\<forall>err. execResult db (events db) q = Some err \<longrightarrow>
             DeleteSchema data db =
               (Some (Wrapf err (''error deleting schema '' @ ResourceId data)), data, emit (ExecEv q) db))
          \<and> (execResult db (events db) q = None \<longrightarrow>
               DeleteSchema data db = (None, data\<lparr>rd_id := []\<rparr>, emit (ExecEv q) db)))
   \<and> (fst (DeleteSchema data db) \<noteq> None \<longrightarrow> fst (snd (DeleteSchema data db)) = data)
   \<and> (fst (DeleteSchema data db) = None \<longrightarrow> ResourceId (fst (snd (DeleteSchema data db))) = [])"
  by (auto simp: DeleteSchema_def DBExec_def SetId_def ResourceId_def Let_def
           split: sum.splits option.splits)

theorem DeleteSchema_clears_id_on_success_witness:
  "splitSchemaID (ResourceId existing_schema) = Inr (''D'', ''S'')
   \<and> DeleteSchema existing_schema (schema_db (\<lambda>q. None) (\<lambda>h. Inr [])) =
        (None, existing_schema\<lparr>rd_id := []\<rparr>,
         emit (ExecEv (SchemaDrop (WithDB (Schema ''S'') ''D''))) (schema_db (\<lambda>q. None) (\<lambda>h. Inr [])))
   \<and> DeleteSchema existing_schema (schema_db (\<lambda>q. Some (DriverErr ''timeout'')) (\<lambda>h. Inr [])) =
        (Some (Wrapf (DriverErr ''timeout'') ''error deleting schema D|S''), existing_schema,
         emit (ExecEv (SchemaDrop (WithDB (Schema ''S'') ''D'')))
           (schema_db (\<lambda>q. Some (DriverErr ''timeout'')) (\<lambda>h. Inr [])))
   \<and> splitSchemaID (ResourceId (existing_schema\<lparr>rd_id := ''S''\<rparr>)) = Inl (Errorf ''ID S is invalid'')
   \<and> DeleteSchema (existing_schema\<lparr>rd_id := ''S''\<rparr>) (schema_db (\<lambda>q. None) (\<lambda>h. Inr [])) =
        (Some (Errorf ''ID S is invalid''), existing_schema\<lparr>rd_id := ''S''\<rparr>,
         schema_db (\<lambda>q. None) (\<lambda>h. Inr []))"
  using DeleteSchema_clears_id_on_success
      [of existing_schema "schema_db (\<lambda>q. None) (\<lambda>h. Inr [])"]
    DeleteSchema_clears_id_on_success
      [of existing_schema "schema_db (\<lambda>q. Some (DriverErr ''timeout'')) (\<lambda>h. Inr [])"]
    DeleteSchema_clears_id_on_success
      [of "existing_schema\<lparr>rd_id := ''S''\<rparr>" "schema_db (\<lambda>q. None) (\<lambda>h. Inr [])"]
  by (simp add: existing_schema_def bag_def ResourceId_def schema_db_def splitSchemaID_def
        Split.simps)

lemma Exists_result:
  "fst (case Query db q of
          (Inl err, db') \<Rightarrow> ((False, Some err), db')
        | (Inr rows, db') \<Rightarrow> if Next rows then ((True, None), db') else ((False, None), db'))
   = (case queryResult db (events db) q of
        Inl err \<Rightarrow> (False, Some err)
      | Inr rows \<Rightarrow> (fetched rows \<noteq> [], None))"
  by (simp add: Query_def Next_def split: sum.splits)

text \<open>
  What the two Exists functions return, for every database: the error of a failed
  query; otherwise whether a first row was fetched, with no error. The error at which
  fetching the first row stopped, \<open>fetchErr\<close>, does not occur in the result.
\<close>

lemma SchemaExists_outcome:
  "splitSchemaID (ResourceId data) = Inr (dbName, schema) \<Longrightarrow>
   fst (SchemaExists data db) =
     (case queryResult db (events db) (SchemaShow (WithDB (Schema schema) dbName)) of
        Inl err \<Rightarrow> (False, Some err)
      | Inr rows \<Rightarrow> (fetched rows \<noteq> [], None))"
  by (simp add: SchemaExists_def Exists_result)

lemma ManagedAccountExists_outcome:
  "fst (ManagedAccountExists data db) =
     (case queryResult db (events db) (BuilderShow (ManagedAccount (ResourceId data))) of
        Inl err \<Rightarrow> (False, Some err)
      | Inr rows \<Rightarrow> (fetched rows \<noteq> [], None))"
  by (simp add: ManagedAccountExists_def Exists_result)

text \<open>
  Claim C2, on concrete databases. For schema \<open>D|S\<close> and account \<open>A\<close> the two Exists
  functions return true when the SHOW query delivers a row, false with no error when
  it delivers none, and the error when the query itself fails, as the claim says. But
  when the query is accepted and fetching its first row fails, \<open>rows.Next()\<close> is
  false and neither function reads \<open>rows.Err()\<close>: both return false with no error,
  and the error of the fetch is lost. On the same databases \<open>ReadSchema\<close> and
  \<open>ReadManagedAccount\<close>, whose \<open>Scan\<close> does read it, return that error.
\<close>

theorem Exists_loses_fetch_error:
  "fst (SchemaExists existing_schema (schema_db (\<lambda>q. None) (\<lambda>h. Inr [schema_row []]))) = (True, None)
   \<and> fst (SchemaExists existing_schema (schema_db (\<lambda>q. None) (\<lambda>h. Inr []))) = (False, None)
   \<and> fst (SchemaExists existing_schema (schema_db (\<lambda>q. None) (\<lambda>h. Inl (DriverErr ''timeout''))))
        = (False, Some (DriverErr ''timeout''))
   \<and> Err \<lparr>fetched = ([] :: SchemaRow list), fetchErr = Some (DriverErr ''connection reset'')\<rparr>
        = Some (DriverErr ''connection reset'')
   \<and> fst (SchemaExists existing_schema
            (fetch_failing (schema_db (\<lambda>q. None) (\<lambda>h. Inr [])) (DriverErr ''connection reset'')))
        = (False, None)
   \<and> fst (ReadSchema existing_schema
            (fetch_failing (schema_db (\<lambda>q. None) (\<lambda>h. Inr [])) (DriverErr ''connection reset'')))
        = Some (DriverErr ''connection reset'')
   \<and> fst (ManagedAccountExists existing_account
            (fetch_failing (account_db (\<lambda>q. None) (\<lambda>h. Inr [])) (DriverErr ''connection reset'')))
        = (False, None)
   \<and> fst (ReadManagedAccount existing_account
            (fetch_failing (account_db (\<lambda>q. None) (\<lambda>h. Inr [])) (DriverErr ''connection reset'')))
        = Some (DriverErr ''connection reset'')"
  by (simp add: example_defs bag_defs world_defs resource_defs Split.simps Let_def)

text \<open>
  Claim C6. In \<open>ReadSchema\<close> and \<open>ReadManagedAccount\<close> every error of the row scan
  is returned as it is, with the bag untouched: \<open>sql.ErrNoRows\<close> of a result with
  no row goes the same way as the error of a failed query, as the error at which
  fetching the first row stopped and as the error of a row that does not fit the
  destinations. Nothing is wrapped and nothing marks the
  missing row for the caller beyond the error that the scan produced.
\<close>

theorem Read_returns_scan_error_as_is:
  "(\<forall>dbName schema q. splitSchemaID (ResourceId data) = Inr (dbName, schema) \<longrightarrow>
          q = SchemaShow (WithDB (Schema schema) dbName) \<longrightarrow>
          (\<forall>err. fst (QueryRow_Scan (scanSchemaRow db) db q) = Inl err \<longrightarrow>
             ReadSchema data db = (Some err, data, emit (QueryEv q) db))
          \<and> (\<forall>rows. queryResult db (events db) q = Inr rows \<longrightarrow>
               fetched rows = [] \<longrightarrow> fetchErr rows = None \<longrightarrow>
               ReadSchema data db = (Some ErrNoRows, data, emit (QueryEv q) db))
          \<and> (\<forall>rows err. queryResult db (events db) q = Inr rows \<longrightarrow>
               fetched rows = [] \<longrightarrow> fetchErr rows = Some err \<longrightarrow>
               ReadSchema data db = (Some err, data, emit (QueryEv q) db))
          \<and> (\<forall>err. queryResult db (events db) q = Inl err \<longrightarrow>
               ReadSchema data db = (Some err, data, emit (QueryEv q) db))
          \<and> (\<forall>err rows r rs. queryResult db (events db) q = Inr rows \<longrightarrow>
               fetched rows = r # rs \<longrightarrow> scanSchemaRow db r = Inl err \<longrightarrow>
               ReadSchema data db = (Some err, data, emit (QueryEv q) db)))
   \<and> (\<forall>q. q = BuilderShow (ManagedAccount (ResourceId data)) \<longrightarrow>
          (\<forall>err. fst (QueryRow_Scan (scanAccountRow db) db q) = Inl err \<longrightarrow>
             ReadManagedAccount data db = (Some err, data, emit (QueryEv q) db))
          \<and> (\<forall>rows. queryResult db (events db) q = Inr rows \<longrightarrow>
               fetched rows = [] \<longrightarrow> fetchErr rows = None \<longrightarrow>
               ReadManagedAccount data db = (Some ErrNoRows, data, emit (QueryEv q) db))
          \<and> (\<forall>rows err. queryResult db (events db) q = Inr rows \<longrightarrow>
               fetched rows = [] \<longrightarrow> fetchErr rows = Some err \<longrightarrow>
               ReadManagedAccount data db = (Some err, data, emit (QueryEv q) db))
          \<and> (\<forall>err. queryResult db (events db) q = Inl err \<longrightarrow>
               ReadManagedAccount data db = (Some err, data, emit (QueryEv q) db))
          \<and> (\<forall>err rows r rs. queryResult db (events db) q = Inr rows \<longrightarrow>
               fetched rows = r # rs \<longrightarrow> scanAccountRow db r = Inl err \<longrightarrow>
               ReadManagedAccount data db = (Some err, data, emit (QueryEv q) db)))"
  by (auto simp: ReadSchema_def ReadManagedAccount_def QueryRow_Scan_cases Let_def
           split: sum.splits list.splits option.splits)

theorem Read_returns_scan_error_as_is_witness:
  "splitSchemaID (ResourceId existing_schema) = Inr (''D'', ''S'')
   \<and> fst (ReadSchema existing_schema (schema_db (\<lambda>q. None) (\<lambda>h. Inr []))) = Some ErrNoRows
   \<and> fst (ReadSchema existing_schema (schema_db (\<lambda>q. None) (\<lambda>h. Inl (DriverErr ''timeout''))))
        = Some (DriverErr ''timeout'')
   \<and> fst (snd (ReadSchema existing_schema (schema_db (\<lambda>q. None) (\<lambda>h. Inr [])))) = existing_schema
   \<and> fst (ReadManagedAccount existing_account (account_db (\<lambda>q. None) (\<lambda>h. Inr []))) = Some ErrNoRows
   \<and> fst (ReadManagedAccount existing_account (account_db (\<lambda>q. None) (\<lambda>h. Inl (DriverErr ''timeout''))))
        = Some (DriverErr ''timeout'')
   \<and> fst (snd (ReadManagedAccount existing_account (account_db (\<lambda>q. None) (\<lambda>h. Inr []))))
        = existing_account"
  using Read_returns_scan_error_as_is [of existing_schema "schema_db (\<lambda>q. None) (\<lambda>h. Inr [])"]
    Read_returns_scan_error_as_is [of existing_schema "schema_db (\<lambda>q. None) (\<lambda>h. Inl (DriverErr ''timeout''))"]
    Read_returns_scan_error_as_is [of existing_account "account_db (\<lambda>q. None) (\<lambda>h. Inr [])"]
    Read_returns_scan_error_as_is [of existing_account "account_db (\<lambda>q. None) (\<lambda>h. Inl (DriverErr ''timeout''))"]
  by (simp add: existing_schema_def existing_account_def bag_def ResourceId_def schema_db_def
        account_db_def splitSchemaID_def Split.simps delivered_def)

section \<open>Reading the bag\<close>

lemma Get_kind: "s key = Some a \<Longrightarrow> kind (Get s data key) = Some (Type a)"
  by (cases "Type a")
     (auto simp: Get_def orZero_def getRaw_def readField_def split: option.splits if_splits)

lemma GetOk_eq:
  "s key = Some a \<Longrightarrow> GetOk s data key = (Get s data key, Get s data key \<noteq> Zero (Type a))"
  by (auto simp: GetOk_def Get_def orZero_def Let_def split: option.splits)

lemma Get_string: "s key = Some a \<Longrightarrow> Type a = TypeString \<Longrightarrow>
    Get s data key = VString (as_string (Get s data key))"
  using Get_kind [of s key a data] by (cases "Get s data key") auto

lemma Get_bool: "s key = Some a \<Longrightarrow> Type a = TypeBool \<Longrightarrow>
    Get s data key = VBool (as_bool (Get s data key))"
  using Get_kind [of s key a data] by (cases "Get s data key") auto

lemma Get_int: "s key = Some a \<Longrightarrow> Type a = TypeInt \<Longrightarrow>
    Get s data key = VInt (as_int (Get s data key))"
  using Get_kind [of s key a data] by (cases "Get s data key") auto

lemma schemaSchema_Type:
  "map_option Type (schemaSchema ''name'') = Some TypeString"
  "map_option Type (schemaSchema ''database'') = Some TypeString"
  "map_option Type (schemaSchema ''comment'') = Some TypeString"
  "map_option Type (schemaSchema ''is_transient'') = Some TypeBool"
  "map_option Type (schemaSchema ''is_managed'') = Some TypeBool"
  "map_option Type (schemaSchema ''data_retention_days'') = Some TypeInt"
  by (simp_all add: schemaSchema_def attribute_def)

lemma GetOk_string:
  assumes "map_option Type (s key) = Some TypeString"
  shows "GetOk s data key = (VString (as_string (Get s data key)), as_string (Get s data key) \<noteq> [])"
proof -
  from assms obtain a where a: "s key = Some a" "Type a = TypeString" by auto
  from Get_string [of s key a data] a obtain c where c: "Get s data key = VString c" by blast
  show ?thesis using a c by (simp add: GetOk_eq)
qed

lemma GetOk_bool:
  assumes "map_option Type (s key) = Some TypeBool"
  shows "GetOk s data key = (VBool (as_bool (Get s data key)), as_bool (Get s data key))"
proof -
  from assms obtain a where a: "s key = Some a" "Type a = TypeBool" by auto
  from Get_bool [of s key a data] a obtain c where c: "Get s data key = VBool c" by blast
  show ?thesis using a c by (simp add: GetOk_eq)
qed

lemma GetOk_int:
  assumes "map_option Type (s key) = Some TypeInt"
  shows "GetOk s data key = (VInt (as_int (Get s data key)), as_int (Get s data key) \<noteq> 0)"
proof -
  from assms obtain a where a: "s key = Some a" "Type a = TypeInt" by auto
  from Get_int [of s key a data] a obtain c where c: "Get s data key = VInt c" by blast
  show ?thesis using a c by (simp add: GetOk_eq)
qed

lemma CreateSchema_builder_eq:
  "CreateSchema_builder data =
     \<lparr>sb_name = as_string (Get schemaSchema data ''name''),
      sb_db = Some (as_string (Get schemaSchema data ''database'')),
      sb_comment = (if as_string (Get schemaSchema data ''comment'') = [] then None
                    else Some (as_string (Get schemaSchema data ''comment''))),
      sb_transient = as_bool (Get schemaSchema data ''is_transient''),
      sb_managedAccess = as_bool (Get schemaSchema data ''is_managed''),
      sb_dataRetentionDays = (if as_int (Get schemaSchema data ''data_retention_days'') = 0 then None
                    else Some (as_int (Get schemaSchema data ''data_retention_days'')))\<rparr>"
  by (simp add: CreateSchema_builder_def GetOk_string GetOk_bool GetOk_int schemaSchema_Type
        Schema_def WithDB_def WithComment_def Transient_def Managed_def WithDataRetentionDays_def
        Let_def)

section \<open>ReadSchema and the option attributes\<close>

lemma Set_schemaSchema:
  "Set schemaSchema data ''name'' (VString x) =
     (None, data\<lparr>rd_set := (rd_set data)(''name'' \<mapsto> VString x)\<rparr>)"
  "Set schemaSchema data ''database'' (VString x) =
     (None, data\<lparr>rd_set := (rd_set data)(''database'' \<mapsto> VString x)\<rparr>)"
  "Set schemaSchema data ''comment'' (VString x) =
     (None, data\<lparr>rd_set := (rd_set data)(''comment'' \<mapsto> VString x)\<rparr>)"
  "Set schemaSchema data ''data_retention_days'' (VInt i) =
     (None, data\<lparr>rd_set := (rd_set data)(''data_retention_days'' \<mapsto> VInt i)\<rparr>)"
  "Set schemaSchema data ''is_transient'' (VBool b) =
     (None, data\<lparr>rd_set := (rd_set data)(''is_transient'' \<mapsto> VBool b)\<rparr>)"
  "Set schemaSchema data ''is_managed'' (VBool b) =
     (None, data\<lparr>rd_set := (rd_set data)(''is_managed'' \<mapsto> VBool b)\<rparr>)"
  by (simp_all add: Set_def schemaSchema_def attribute_def)

lemma Get_after_Set:
  "map_option Type (s k) = kind v \<Longrightarrow> kind v \<noteq> None \<Longrightarrow>
   Get s (data\<lparr>rd_set := m(k \<mapsto> v)\<rparr>) key =
     (if key = k then v else Get s (data\<lparr>rd_set := m\<rparr>) key)"
  by (auto simp: Get_def orZero_def getRaw_def readField_def split: option.splits)

lemma ReadSchema_options_ok: "fst (ReadSchema_options data opts) = None"
  by (induction opts arbitrary: data) (simp_all add: Set_schemaSchema)

lemma ReadSchema_options_Get:
  "Get schemaSchema (snd (ReadSchema_options data opts)) ''is_transient'' =
     (if ''TRANSIENT'' \<in> set opts then VBool True else Get schemaSchema data ''is_transient'')"
  "Get schemaSchema (snd (ReadSchema_options data opts)) ''is_managed'' =
     (if ''MANAGED'' \<in> set opts then VBool True else Get schemaSchema data ''is_managed'')"
  by (induction opts arbitrary: data)
     (simp_all add: Set_schemaSchema Get_after_Set schemaSchema_Type)

lemma ReadSchema_fields_ok: "fst (ReadSchema_fields row data) = None"
  by (simp add: ReadSchema_fields_def Set_schemaSchema ReadSchema_options_ok Let_def)

lemma ReadSchema_fields_options:
  "Get schemaSchema (snd (ReadSchema_fields row data)) ''is_transient'' =
     VBool (''TRANSIENT'' \<in> set (Split (ns_String (row_options row)) '', ''))"
  "Get schemaSchema (snd (ReadSchema_fields row data)) ''is_managed'' =
     VBool (''MANAGED'' \<in> set (Split (ns_String (row_options row)) '', ''))"
  by (simp_all add: ReadSchema_fields_def Set_schemaSchema ReadSchema_options_Get Let_def
        Get_after_Set schemaSchema_Type Split_Nil)

lemma ReadSchema_options_other:
  "key \<noteq> ''is_transient'' \<Longrightarrow> key \<noteq> ''is_managed'' \<Longrightarrow>
   Get schemaSchema (snd (ReadSchema_options data opts)) key = Get schemaSchema data key"
  by (induction opts arbitrary: data)
     (simp_all add: Set_schemaSchema Get_after_Set schemaSchema_Type)

lemma ReadSchema_options_id: "rd_id (snd (ReadSchema_options data opts)) = rd_id data"
  by (induction opts arbitrary: data) (simp_all add: Set_schemaSchema)

lemma ReadSchema_fields_values:
  "Get schemaSchema (snd (ReadSchema_fields row data)) ''name'' = VString (ns_String (row_name row))"
  "Get schemaSchema (snd (ReadSchema_fields row data)) ''database'' =
     VString (ns_String (row_databaseName row))"
  "Get schemaSchema (snd (ReadSchema_fields row data)) ''comment'' =
     VString (ns_String (row_comment row))"
  "Get schemaSchema (snd (ReadSchema_fields row data)) ''data_retention_days'' =
     VInt (ni_Int64 (row_retentionTime row))"
  by (simp_all add: ReadSchema_fields_def Set_schemaSchema ReadSchema_options_other Let_def
        Get_after_Set schemaSchema_Type)

lemma ReadSchema_fields_id: "ResourceId (snd (ReadSchema_fields row data)) = ResourceId data"
  by (simp add: ReadSchema_fields_def Set_schemaSchema ReadSchema_options_id Let_def
        ResourceId_def)

lemma ReadSchema_success:
  "splitSchemaID (ResourceId data) = Inr (dbName, schema) \<Longrightarrow>
   fst (QueryRow_Scan (scanSchemaRow db) db (SchemaShow (WithDB (Schema schema) dbName))) = Inr row \<Longrightarrow>
   ReadSchema data db =
     (None, snd (ReadSchema_fields row data),
      emit (QueryEv (SchemaShow (WithDB (Schema schema) dbName))) db)"
  using ReadSchema_fields_ok [of row data]
  by (simp add: ReadSchema_def QueryRow_Scan_cases Let_def split_beta split: prod.splits)

text \<open>
  Claim C3. A \<open>ReadSchema\<close> that returns no error has scanned a row, and afterwards
  \<open>is_transient\<close> and \<open>is_managed\<close> are true exactly when \<open>TRANSIENT\<close> and
  \<open>MANAGED\<close> are among the comma-separated tokens of the options string of that
  row, whatever the two attributes were before: they are set to false first. With an
  empty options string both are false. (The witness reads a schema whose options are
  \<open>MANAGED\<close> and then reads it again with empty options: \<open>is_managed\<close> is true
  after the first read and false after the second.)
\<close>

theorem ReadSchema_resets_options:
  "(\<forall>dbName schema q row.
       splitSchemaID (ResourceId data) = Inr (dbName, schema) \<longrightarrow>
       q = SchemaShow (WithDB (Schema schema) dbName) \<longrightarrow>
       fst (QueryRow_Scan (scanSchemaRow db) db q) = Inr row \<longrightarrow>
       fst (ReadSchema data db) = None
       \<and> Get schemaSchema (fst (snd (ReadSchema data db))) ''is_transient'' =
           VBool (''TRANSIENT'' \<in> set (Split (ns_String (row_options row)) '', ''))
       \<and> Get schemaSchema (fst (snd (ReadSchema data db))) ''is_managed'' =
           VBool (''MANAGED'' \<in> set (Split (ns_String (row_options row)) '', ''))
       \<and> (ns_String (row_options row) = [] \<longrightarrow>
            Get schemaSchema (fst (snd (ReadSchema data db))) ''is_transient'' = VBool False
            \<and> Get schemaSchema (fst (snd (ReadSchema data db))) ''is_managed'' = VBool False))
   \<and> (fst (ReadSchema data db) = None \<longrightarrow>
        (\<exists>dbName schema row.
           splitSchemaID (ResourceId data) = Inr (dbName, schema)
           \<and> fst (QueryRow_Scan (scanSchemaRow db) db (SchemaShow (WithDB (Schema schema) dbName)))
               = Inr row))"
proof (intro conjI allI impI)
  fix dbName schema q row
  assume id: "splitSchemaID (ResourceId data) = Inr (dbName, schema)"
    and q: "q = SchemaShow (WithDB (Schema schema) dbName)"
    and row: "fst (QueryRow_Scan (scanSchemaRow db) db q) = Inr row"
  have r: "ReadSchema data db =
      (fst (ReadSchema_fields row data), snd (ReadSchema_fields row data), emit (QueryEv q) db)"
    using id q row
    by (simp add: ReadSchema_def QueryRow_Scan_cases Let_def split_beta split: prod.splits)
  show "fst (ReadSchema data db) = None"
    by (simp add: r ReadSchema_fields_ok)
  show t: "Get schemaSchema (fst (snd (ReadSchema data db))) ''is_transient'' =
           VBool (''TRANSIENT'' \<in> set (Split (ns_String (row_options row)) '', ''))"
    by (simp add: r ReadSchema_fields_options)
  show m: "Get schemaSchema (fst (snd (ReadSchema data db))) ''is_managed'' =
           VBool (''MANAGED'' \<in> set (Split (ns_String (row_options row)) '', ''))"
    by (simp add: r ReadSchema_fields_options)
  assume "ns_String (row_options row) = []"
  then show "Get schemaSchema (fst (snd (ReadSchema data db))) ''is_transient'' = VBool False"
    and "Get schemaSchema (fst (snd (ReadSchema data db))) ''is_managed'' = VBool False"
    by (simp_all add: t m Split_Nil)
next
  assume "fst (ReadSchema data db) = None"
  then show "\<exists>dbName schema row.
           splitSchemaID (ResourceId data) = Inr (dbName, schema)
           \<and> fst (QueryRow_Scan (scanSchemaRow db) db (SchemaShow (WithDB (Schema schema) dbName)))
               = Inr row"
    by (auto simp: ReadSchema_def Let_def split: sum.splits prod.splits)
qed

theorem ReadSchema_resets_options_witness:
  "splitSchemaID (ResourceId existing_schema) = Inr (''D'', ''S'')
   \<and> fst (ReadSchema existing_schema managed_then_plain) = None
   \<and> Get schemaSchema (fst (snd (ReadSchema existing_schema managed_then_plain))) ''is_managed''
       = VBool True
   \<and> fst (ReadSchema (fst (snd (ReadSchema existing_schema managed_then_plain)))
             (snd (snd (ReadSchema existing_schema managed_then_plain)))) = None
   \<and> Get schemaSchema
         (fst (snd (ReadSchema (fst (snd (ReadSchema existing_schema managed_then_plain)))
                               (snd (snd (ReadSchema existing_schema managed_then_plain))))))
         ''is_managed''
       = VBool False"
proof -
  let ?q = "SchemaShow (WithDB (Schema ''S'') ''D'')"
  let ?data = "fst (snd (ReadSchema existing_schema managed_then_plain))"
  let ?db = "snd (snd (ReadSchema existing_schema managed_then_plain))"
  have i: "splitSchemaID (ResourceId existing_schema) = Inr (''D'', ''S'')"
    by (simp add: existing_schema_def bag_def ResourceId_def splitSchemaID_def Split.simps)
  have r: "fst (QueryRow_Scan (scanSchemaRow managed_then_plain) managed_then_plain ?q)
             = Inr (schema_row ''MANAGED'')"
    by (simp add: QueryRow_Scan_cases managed_then_plain_def schema_db_def delivered_def)
  note first = ReadSchema_resets_options
      [of existing_schema managed_then_plain, THEN conjunct1, rule_format, OF i refl r]
  have after: "ReadSchema existing_schema managed_then_plain =
      (None, snd (ReadSchema_fields (schema_row ''MANAGED'') existing_schema),
       emit (QueryEv ?q) managed_then_plain)"
    by (rule ReadSchema_success [OF i r])
  have i2: "splitSchemaID (ResourceId ?data) = Inr (''D'', ''S'')"
    by (simp add: after ReadSchema_fields_id i)
  have r2: "fst (QueryRow_Scan (scanSchemaRow ?db) ?db ?q) = Inr (schema_row [])"
    unfolding after
    by (simp add: QueryRow_Scan_cases managed_then_plain_def schema_db_def delivered_def
          emit_def)
  note second = ReadSchema_resets_options [of ?data ?db, THEN conjunct1, rule_format, OF i2 refl r2]
  have opts: "Split (ns_String (row_options (schema_row ''MANAGED''))) '', '' = [''MANAGED'']"
    "ns_String (row_options (schema_row [])) = []"
    by (simp_all add: schema_row_def text_col_def Split.simps)
  from first second i show ?thesis
    by (simp add: opts Split_Nil)
qed

section \<open>CreateSchema\<close>

text \<open>
  Claim C5. \<open>CreateSchema\<close> reads \<open>name\<close> and \<open>database\<close> and the optional
  attributes that are set (\<open>GetOk\<close>) into the builder and executes the CREATE
  statement rendered from it. When the execution fails, the error is returned wrapped
  with the name of the schema, and the bag, with its ID, is as it was. When it succeeds,
  the ID \<open><database>|<name>\<close> is stored and the result of \<open>CreateSchema\<close> is the
  result of \<open>ReadSchema\<close> on that bag. When that read finds the row of the schema,
  \<open>CreateSchema\<close> returns no error, its effects are the CREATE statement followed by
  the SHOW query, the bag has the ID, and each attribute of the bag holds what the
  server returned in the row: name, database, comment, retention, and the two options
  as they appear in the options string, not what the configuration planned.
\<close>

theorem CreateSchema_stores_id_then_reads:
  "\<forall>name database q.
      name = as_string (Get schemaSchema data ''name'') \<longrightarrow>
      database = as_string (Get schemaSchema data ''database'') \<longrightarrow>
      q = SchemaCreate (CreateSchema_builder data) \<longrightarrow>
      CreateSchema_builder data =
        \<lparr>sb_name = name, sb_db = Some database,
         sb_comment = (if as_string (Get schemaSchema data ''comment'') = [] then None
                       else Some (as_string (Get schemaSchema data ''comment''))),
         sb_transient = as_bool (Get schemaSchema data ''is_transient''),
         sb_managedAccess = as_bool (Get schemaSchema data ''is_managed''),
         sb_dataRetentionDays =
           (if as_int (Get schemaSchema data ''data_retention_days'') = 0 then None
            else Some (as_int (Get schemaSchema data ''data_retention_days'')))\<rparr>
      \<and> (\<forall>err. execResult db (events db) q = Some err \<longrightarrow>
            CreateSchema data db =
              (Some (Wrapf err (''error creating schema '' @ name)), data, emit (ExecEv q) db))
      \<and> (execResult db (events db) q = None \<longrightarrow>
            CreateSchema data db =
              ReadSchema (data\<lparr>rd_id := database @ ''|'' @ name\<rparr>) (emit (ExecEv q) db))
      \<and> (\<forall>dbName schema row.
            execResult db (events db) q = None \<longrightarrow>
            splitSchemaID (database @ ''|'' @ name) = Inr (dbName, schema) \<longrightarrow>
            fst (QueryRow_Scan (scanSchemaRow db) (emit (ExecEv q) db)
                   (SchemaShow (WithDB (Schema schema) dbName))) = Inr row \<longrightarrow>
            fst (CreateSchema data db) = None
            \<and> events (snd (snd (CreateSchema data db))) =
                events db @ [ExecEv q, QueryEv (SchemaShow (WithDB (Schema schema) dbName))]
            \<and> ResourceId (fst (snd (CreateSchema data db))) = database @ ''|'' @ name
            \<and> Get schemaSchema (fst (snd (CreateSchema data db))) ''name'' =
                VString (ns_String (row_name row))
            \<and> Get schemaSchema (fst (snd (CreateSchema data db))) ''database'' =
                VString (ns_String (row_databaseName row))
            \<and> Get schemaSchema (fst (snd (CreateSchema data db))) ''comment'' =
                VString (ns_String (row_comment row))
            \<and> Get schemaSchema (fst (snd (CreateSchema data db))) ''data_retention_days'' =
                VInt (ni_Int64 (row_retentionTime row))
            \<and> Get schemaSchema (fst (snd (CreateSchema data db))) ''is_transient'' =
                VBool (''TRANSIENT'' \<in> set (Split (ns_String (row_options row)) '', ''))
            \<and> Get schemaSchema (fst (snd (CreateSchema data db))) ''is_managed'' =
                VBool (''MANAGED'' \<in> set (Split (ns_String (row_options row)) '', '')))"
proof (intro allI impI conjI)
  fix name database q
  assume n: "name = as_string (Get schemaSchema data ''name'')"
    and d: "database = as_string (Get schemaSchema data ''database'')"
    and q: "q = SchemaCreate (CreateSchema_builder data)"
  show "CreateSchema_builder data =
        \<lparr>sb_name = name, sb_db = Some database,
         sb_comment = (if as_string (Get schemaSchema data ''comment'') = [] then None
                       else Some (as_string (Get schemaSchema data ''comment''))),
         sb_transient = as_bool (Get schemaSchema data ''is_transient''),
         sb_managedAccess = as_bool (Get schemaSchema data ''is_managed''),
         sb_dataRetentionDays =
           (if as_int (Get schemaSchema data ''data_retention_days'') = 0 then None
            else Some (as_int (Get schemaSchema data ''data_retention_days'')))\<rparr>"
    by (simp add: n d CreateSchema_builder_eq)
  have ok: "CreateSchema data db =
              ReadSchema (data\<lparr>rd_id := database @ ''|'' @ name\<rparr>) (emit (ExecEv q) db)"
    if "execResult db (events db) q = None"
    using that by (simp add: n d q CreateSchema_def DBExec_def SetId_def Let_def)
  show "CreateSchema data db =
              ReadSchema (data\<lparr>rd_id := database @ ''|'' @ name\<rparr>) (emit (ExecEv q) db)"
    if "execResult db (events db) q = None"
    using that by (rule ok)
  show "CreateSchema data db =
              (Some (Wrapf err (''error creating schema '' @ name)), data, emit (ExecEv q) db)"
    if "execResult db (events db) q = Some err" for err
    using that by (simp add: n d q CreateSchema_def DBExec_def Let_def)
  fix dbName schema row
  assume x: "execResult db (events db) q = None"
    and i: "splitSchemaID (database @ ''|'' @ name) = Inr (dbName, schema)"
    and r: "fst (QueryRow_Scan (scanSchemaRow db) (emit (ExecEv q) db)
                   (SchemaShow (WithDB (Schema schema) dbName))) = Inr row"
  let ?data = "data\<lparr>rd_id := database @ ''|'' @ name\<rparr>"
  have c: "CreateSchema data db =
      (None, snd (ReadSchema_fields row ?data),
       emit (QueryEv (SchemaShow (WithDB (Schema schema) dbName))) (emit (ExecEv q) db))"
    using i r ReadSchema_success [of ?data dbName schema "emit (ExecEv q) db" row]
    by (simp add: ok [OF x] ResourceId_def emit_def)
  show "fst (CreateSchema data db) = None" by (simp add: c)
  show "events (snd (snd (CreateSchema data db))) =
          events db @ [ExecEv q, QueryEv (SchemaShow (WithDB (Schema schema) dbName))]"
    by (simp add: c emit_def)
  show "ResourceId (fst (snd (CreateSchema data db))) = database @ ''|'' @ name"
    by (simp add: c ReadSchema_fields_id) (simp add: ResourceId_def)
  show "Get schemaSchema (fst (snd (CreateSchema data db))) ''name'' =
          VString (ns_String (row_name row))"
    and "Get schemaSchema (fst (snd (CreateSchema data db))) ''database'' =
          VString (ns_String (row_databaseName row))"
    and "Get schemaSchema (fst (snd (CreateSchema data db))) ''comment'' =
          VString (ns_String (row_comment row))"
    and "Get schemaSchema (fst (snd (CreateSchema data db))) ''data_retention_days'' =
          VInt (ni_Int64 (row_retentionTime row))"
    by (simp_all add: c ReadSchema_fields_values)
  show "Get schemaSchema (fst (snd (CreateSchema data db))) ''is_transient'' =
          VBool (''TRANSIENT'' \<in> set (Split (ns_String (row_options row)) '', ''))"
    and "Get schemaSchema (fst (snd (CreateSchema data db))) ''is_managed'' =
          VBool (''MANAGED'' \<in> set (Split (ns_String (row_options row)) '', ''))"
    by (simp_all add: c ReadSchema_fields_options)
qed

theorem CreateSchema_stores_id_then_reads_witness:
  "execResult (schema_db (\<lambda>q. None) (\<lambda>h. Inr [server_row])) []
      (SchemaCreate (CreateSchema_builder new_schema)) = None
   \<and> splitSchemaID ''D|S'' = Inr (''D'', ''S'')
   \<and> fst (CreateSchema new_schema (schema_db (\<lambda>q. None) (\<lambda>h. Inr [server_row]))) = None
   \<and> ResourceId (fst (snd (CreateSchema new_schema
         (schema_db (\<lambda>q. None) (\<lambda>h. Inr [server_row]))))) = ''D|S''
   \<and> events (snd (snd (CreateSchema new_schema (schema_db (\<lambda>q. None) (\<lambda>h. Inr [server_row])))))
       = [ExecEv (SchemaCreate \<lparr>sb_name = ''S'', sb_db = Some ''D'', sb_comment = None,
                   sb_transient = True, sb_managedAccess = False, sb_dataRetentionDays = Some 5\<rparr>),
          QueryEv (SchemaShow (WithDB (Schema ''S'') ''D''))]
   \<and> map (Get schemaSchema (fst (snd (CreateSchema new_schema
         (schema_db (\<lambda>q. None) (\<lambda>h. Inr [server_row]))))))
        [''name'', ''database'', ''comment'', ''data_retention_days'', ''is_transient'',
         ''is_managed'']
       = [VString ''S'', VString ''D'', VString ''set by an administrator'', VInt 7, VBool True,
          VBool True]
   \<and> map (Get schemaSchema new_schema) [''comment'', ''data_retention_days'', ''is_managed'']
       = [VString [], VInt 5, VBool False]
   \<and> CreateSchema new_schema (schema_db (\<lambda>q. Some (DriverErr ''timeout'')) (\<lambda>h. Inr []))
       = (Some (Wrapf (DriverErr ''timeout'') ''error creating schema S''), new_schema,
          emit (ExecEv (SchemaCreate (CreateSchema_builder new_schema)))
            (schema_db (\<lambda>q. Some (DriverErr ''timeout'')) (\<lambda>h. Inr [])))"
proof -
  let ?db = "schema_db (\<lambda>q. None) (\<lambda>h. Inr [server_row])"
  let ?bad = "schema_db (\<lambda>q. Some (DriverErr ''timeout'')) (\<lambda>h. Inr [])"
  let ?q = "SchemaCreate (CreateSchema_builder new_schema)"
  have n: "as_string (Get schemaSchema new_schema ''name'') = ''S''"
    and d: "as_string (Get schemaSchema new_schema ''database'') = ''D''"
    and old: "map (Get schemaSchema new_schema) [''comment'', ''data_retention_days'', ''is_managed'']
       = [VString [], VInt 5, VBool False]"
    by (simp_all add: new_schema_def bag_def bag_defs)
  have b: "CreateSchema_builder new_schema =
      \<lparr>sb_name = ''S'', sb_db = Some ''D'', sb_comment = None,
       sb_transient = True, sb_managedAccess = False, sb_dataRetentionDays = Some 5\<rparr>"
    by (simp add: CreateSchema_builder_eq) (simp add: new_schema_def bag_def bag_defs)
  have ev: "events ?db = []" "events ?bad = []"
    by (simp_all add: schema_db_def)
  have x: "execResult ?db (events ?db) ?q = None"
    and xbad: "execResult ?bad (events ?bad) ?q = Some (DriverErr ''timeout'')"
    by (simp_all add: schema_db_def)
  have i: "splitSchemaID (''D'' @ ''|'' @ ''S'') = Inr (''D'', ''S'')"
    by (simp add: splitSchemaID_def Split.simps)
  have r: "fst (QueryRow_Scan (scanSchemaRow ?db) (emit (ExecEv ?q) ?db)
                  (SchemaShow (WithDB (Schema ''S'') ''D''))) = Inr server_row"
    by (simp add: QueryRow_Scan_cases schema_db_def emit_def delivered_def)
  have row: "ns_String (row_name server_row) = ''S''"
    "ns_String (row_databaseName server_row) = ''D''"
    "ns_String (row_comment server_row) = ''set by an administrator''"
    "ni_Int64 (row_retentionTime server_row) = 7"
    "Split (ns_String (row_options server_row)) '', '' = [''TRANSIENT'', ''MANAGED'']"
    by (simp_all add: server_row_def schema_row_def text_col_def Split.simps)
  note t = CreateSchema_stores_id_then_reads [of new_schema ?db, rule_format, OF refl refl refl]
  note good = t [THEN conjunct2, THEN conjunct2, THEN conjunct2, rule_format,
      OF x, unfolded n d, OF i r]
  note tbad = CreateSchema_stores_id_then_reads [of new_schema ?bad, rule_format, OF refl refl refl]
  note bad = tbad [THEN conjunct2, THEN conjunct1, rule_format, OF xbad, unfolded n]
  from good bad x i old show ?thesis
    by (simp add: row b ev)
qed

section \<open>A retention of zero days\<close>

lemma ReadSchema_events:
  "\<exists>rest. events (snd (snd (ReadSchema data db))) = events db @ rest"
  by (simp add: ReadSchema_def QueryRow_Scan_cases Let_def emit_def split_beta
           split: sum.splits prod.splits list.splits option.splits)

lemma CreateSchema_first_event:
  "take (Suc (length (events db))) (events (snd (snd (CreateSchema data db)))) =
     events db @ [ExecEv (SchemaCreate (CreateSchema_builder data))]"
proof (cases "execResult db (events db) (SchemaCreate (CreateSchema_builder data))")
  case (Some err)
  then show ?thesis
    by (simp add: CreateSchema_def DBExec_def Let_def emit_def)
next
  case None
  let ?db = "emit (ExecEv (SchemaCreate (CreateSchema_builder data))) db"
  let ?data = "SetId data (as_string (Get schemaSchema data ''database'') @ ''|'' @
                           as_string (Get schemaSchema data ''name''))"
  from ReadSchema_events [of ?data ?db]
  obtain rest where "events (snd (snd (ReadSchema ?data ?db))) = events ?db @ rest" ..
  with None show ?thesis
    by (simp add: CreateSchema_def DBExec_def Let_def emit_def)
qed

lemma Get_newResourceData:
  "Get s (newResourceData s config) key = orZero s key (readField s (plannedValues s config) key)"
  by (simp add: Get_def getRaw_def newResourceData_def readField_def split: option.splits)

text \<open>
  Claim C9, as amended. The validator of \<open>data_retention_days\<close> is
  \<open>IntBetween(0, 90)\<close> and accepts 0; the default of the attribute is 1. The
  statement that \<open>CreateSchema\<close> executes first is the CREATE rendered from its
  builder. When the bag holds 0 for the attribute, \<open>GetOk\<close> reports it as not set
  and the builder receives no retention, so the CREATE carries no retention clause;
  any other value is passed to the builder. A configuration that asks for 0 days
  therefore gives a CREATE without retention clause, and a configuration that does not
  mention the retention gives a CREATE with a retention clause of 1 day, the default
  that the framework plans for it.
\<close>

theorem CreateSchema_retention_zero_no_clause:
  "map_option ValidateFunc (schemaSchema ''data_retention_days'') = Some (Some (IntBetween 0 90))
   \<and> map_option Default (schemaSchema ''data_retention_days'') = Some (Some (VInt 1))
   \<and> IntBetween_accepts 0 90 (VInt 0)
   \<and> take (Suc (length (events db))) (events (snd (snd (CreateSchema data db)))) =
         events db @ [ExecEv (SchemaCreate (CreateSchema_builder data))]
   \<and> (Get schemaSchema data ''data_retention_days'' = VInt 0 \<longrightarrow>
        snd (GetOk schemaSchema data ''data_retention_days'') = False
        \<and> sb_dataRetentionDays (CreateSchema_builder data) = None)
   \<and> (\<forall>days. Get schemaSchema data ''data_retention_days'' = VInt days \<longrightarrow> days \<noteq> 0 \<longrightarrow>
        sb_dataRetentionDays (CreateSchema_builder data) = Some days)
   \<and> (\<forall>config. config ''data_retention_days'' = Some (VInt 0) \<longrightarrow>
        sb_dataRetentionDays (CreateSchema_builder (newResourceData schemaSchema config)) = None)
   \<and> (\<forall>config. config ''data_retention_days'' = None \<longrightarrow>
        sb_dataRetentionDays (CreateSchema_builder (newResourceData schemaSchema config)) = Some 1)"
proof (intro conjI impI allI)
  show "map_option ValidateFunc (schemaSchema ''data_retention_days'') = Some (Some (IntBetween 0 90))"
    and "map_option Default (schemaSchema ''data_retention_days'') = Some (Some (VInt 1))"
    by (simp_all add: schemaSchema_def attribute_def)
  show "IntBetween_accepts 0 90 (VInt 0)"
    by (simp add: IntBetween_accepts_def)
  show "take (Suc (length (events db))) (events (snd (snd (CreateSchema data db)))) =
         events db @ [ExecEv (SchemaCreate (CreateSchema_builder data))]"
    by (rule CreateSchema_first_event)
next
  assume z: "Get schemaSchema data ''data_retention_days'' = VInt 0"
  then show "snd (GetOk schemaSchema data ''data_retention_days'') = False"
    by (simp add: GetOk_int schemaSchema_Type)
  from z show "sb_dataRetentionDays (CreateSchema_builder data) = None"
    by (simp add: CreateSchema_builder_eq)
next
  fix days :: int
  assume "Get schemaSchema data ''data_retention_days'' = VInt days" and "days \<noteq> 0"
  then show "sb_dataRetentionDays (CreateSchema_builder data) = Some days"
    by (simp add: CreateSchema_builder_eq)
next
  fix config :: "string \<rightharpoonup> val"
  assume "config ''data_retention_days'' = Some (VInt 0)"
  then have "Get schemaSchema (newResourceData schemaSchema config) ''data_retention_days'' = VInt 0"
    by (simp add: Get_newResourceData orZero_def readField_def plannedValues_def
          schemaSchema_def attribute_def)
  then show "sb_dataRetentionDays (CreateSchema_builder (newResourceData schemaSchema config)) = None"
    by (simp add: CreateSchema_builder_eq)
next
  fix config :: "string \<rightharpoonup> val"
  assume "config ''data_retention_days'' = None"
  then have "Get schemaSchema (newResourceData schemaSchema config) ''data_retention_days'' = VInt 1"
    by (simp add: Get_newResourceData orZero_def readField_def plannedValues_def
          schemaSchema_def attribute_def)
  then show "sb_dataRetentionDays (CreateSchema_builder (newResourceData schemaSchema config)) = Some 1"
    by (simp add: CreateSchema_builder_eq)
qed

theorem CreateSchema_retention_zero_no_clause_witness:
  "zero_retention_config ''data_retention_days'' = Some (VInt 0)
   \<and> Get schemaSchema (newResourceData schemaSchema zero_retention_config) ''data_retention_days''
       = VInt 0
   \<and> snd (GetOk schemaSchema (newResourceData schemaSchema zero_retention_config)
            ''data_retention_days'') = False
   \<and> sb_dataRetentionDays (CreateSchema_builder (newResourceData schemaSchema zero_retention_config))
       = None
   \<and> no_retention_config ''data_retention_days'' = None
   \<and> sb_dataRetentionDays (CreateSchema_builder (newResourceData schemaSchema no_retention_config))
       = Some 1
   \<and> Get schemaSchema new_schema ''data_retention_days'' = VInt 5
   \<and> sb_dataRetentionDays (CreateSchema_builder new_schema) = Some 5"
proof -
  have z: "zero_retention_config ''data_retention_days'' = Some (VInt 0)"
    and u: "no_retention_config ''data_retention_days'' = None"
    by (simp_all add: zero_retention_config_def no_retention_config_def)
  have g: "Get schemaSchema (newResourceData schemaSchema zero_retention_config)
             ''data_retention_days'' = VInt 0"
    and f: "Get schemaSchema new_schema ''data_retention_days'' = VInt 5"
    by (simp_all add: example_defs bag_defs)
  note t = CreateSchema_retention_zero_no_clause
  note a = t [of _ "newResourceData schemaSchema zero_retention_config",
      THEN conjunct2, THEN conjunct2, THEN conjunct2, THEN conjunct2, THEN conjunct1,
      rule_format, OF g]
  note b = t [THEN conjunct2, THEN conjunct2, THEN conjunct2, THEN conjunct2, THEN conjunct2,
      THEN conjunct2, THEN conjunct2, rule_format, where config = no_retention_config, OF u]
  note c = t [of _ new_schema, THEN conjunct2, THEN conjunct2, THEN conjunct2, THEN conjunct2,
      THEN conjunct2, THEN conjunct1, rule_format, OF f]
  from a b c z u g f show ?thesis by simp
qed

text \<open>
  Claim C9 as it was stated does not hold: the CREATE for a configured retention of 0
  and the CREATE for a configuration without retention differ. The first has no
  retention clause, the second has the clause of the default, 1 day.
\<close>

theorem CreateSchema_retention_unspecified_counterexample:
  "sb_dataRetentionDays (CreateSchema_builder (newResourceData schemaSchema zero_retention_config))
     = None
   \<and> sb_dataRetentionDays (CreateSchema_builder (newResourceData schemaSchema no_retention_config))
     = Some 1
   \<and> SchemaCreate (CreateSchema_builder (newResourceData schemaSchema zero_retention_config))
     \<noteq> SchemaCreate (CreateSchema_builder (newResourceData schemaSchema no_retention_config))
   \<and> events (snd (snd (CreateSchema (newResourceData schemaSchema zero_retention_config)
                (schema_db (\<lambda>q. None) (\<lambda>h. Inr [schema_row []])))))
     \<noteq> events (snd (snd (CreateSchema (newResourceData schemaSchema no_retention_config)
                (schema_db (\<lambda>q. None) (\<lambda>h. Inr [schema_row []])))))"
  by (simp add: example_defs bag_defs world_defs resource_defs Split.simps Let_def)

section \<open>The delay before the first read of a managed account\<close>

lemma ReadManagedAccount_events:
  "events (snd (snd (ReadManagedAccount data db))) =
     events db @ [QueryEv (BuilderShow (ManagedAccount (ResourceId data)))]"
  by (simp add: ReadManagedAccount_def QueryRow_Scan_cases Let_def emit_def split_beta
           split: sum.splits list.splits option.splits)


lemma initialReadManagedAccount_eq:
  "initialReadManagedAccount data meta =
     ReadManagedAccount data (emit (SleepEv (10 * Second)) (emit (LogEv ''[INFO] sleeping to give the locator a chance to be generated'') meta))"
  by (simp add: initialReadManagedAccount_def Let_def)

lemma initialReadManagedAccount_events:
  "events (snd (snd (initialReadManagedAccount data meta))) =
       events meta @ [LogEv ''[INFO] sleeping to give the locator a chance to be generated'', SleepEv 10000000000,
                      QueryEv (BuilderShow (ManagedAccount (ResourceId data)))]"
  by (simp add: initialReadManagedAccount_eq ReadManagedAccount_events emit_def Second_def)

text \<open>
  Claim C8. \<open>initialReadManagedAccount\<close> logs, sleeps for ten seconds and then is
  \<open>ReadManagedAccount\<close>: its effects are one log line, one sleep of
  \<open>10 * time.Second\<close> and the one query of \<open>ReadManagedAccount\<close>, whatever the
  database answers. A managed-account Create whose CREATE statement succeeds has
  exactly these effects after the statement: one sleep, then one query, nothing
  repeated. When the statement fails there is neither sleep nor query.
\<close>

theorem CreateManagedAccount_one_fixed_delay:
  "initialReadManagedAccount data meta =
     ReadManagedAccount data (emit (SleepEv (10 * Second)) (emit (LogEv ''[INFO] sleeping to give the locator a chance to be generated'') meta))
   \<and> events (snd (snd (initialReadManagedAccount data meta))) =
       events meta @ [LogEv ''[INFO] sleeping to give the locator a chance to be generated'', SleepEv 10000000000,
                      QueryEv (BuilderShow (ManagedAccount (ResourceId data)))]
   \<and> (\<forall>name q.
         name = as_string (Get managedAccountSchema data ''name'') \<longrightarrow>
         q = CreateResource_statement managedAccountProperties managedAccountSchema
               ManagedAccount data \<longrightarrow>
         (execResult meta (events meta) q = None \<longrightarrow>
            events (snd (snd (CreateManagedAccount data meta))) =
              events meta @ [ExecEv q, LogEv ''[INFO] sleeping to give the locator a chance to be generated'', SleepEv 10000000000,
                             QueryEv (BuilderShow (ManagedAccount name))])
         \<and> (\<forall>err. execResult meta (events meta) q = Some err \<longrightarrow>
               CreateManagedAccount data meta =
                 (Some (Wrapf err (''error creating '' @ name)), data, emit (ExecEv q) meta)))"
proof (intro conjI)
  show "initialReadManagedAccount data meta =
     ReadManagedAccount data (emit (SleepEv (10 * Second)) (emit (LogEv ''[INFO] sleeping to give the locator a chance to be generated'') meta))"
    by (rule initialReadManagedAccount_eq)
  show "events (snd (snd (initialReadManagedAccount data meta))) =
       events meta @ [LogEv ''[INFO] sleeping to give the locator a chance to be generated'', SleepEv 10000000000,
                      QueryEv (BuilderShow (ManagedAccount (ResourceId data)))]"
    by (rule initialReadManagedAccount_events)
  show "\<forall>name q.
         name = as_string (Get managedAccountSchema data ''name'') \<longrightarrow>
         q = CreateResource_statement managedAccountProperties managedAccountSchema
               ManagedAccount data \<longrightarrow>
         (execResult meta (events meta) q = None \<longrightarrow>
            events (snd (snd (CreateManagedAccount data meta))) =
              events meta @ [ExecEv q, LogEv ''[INFO] sleeping to give the locator a chance to be generated'', SleepEv 10000000000,
                             QueryEv (BuilderShow (ManagedAccount name))])
         \<and> (\<forall>err. execResult meta (events meta) q = Some err \<longrightarrow>
               CreateManagedAccount data meta =
                 (Some (Wrapf err (''error creating '' @ name)), data, emit (ExecEv q) meta))"
    by (simp add: CreateManagedAccount_def CreateResource_def DBExec_def Let_def
          initialReadManagedAccount_events emit_def SetId_def ResourceId_def)
qed

theorem CreateManagedAccount_one_fixed_delay_witness:
  "fst (CreateManagedAccount new_account (account_db (\<lambda>q. None) (\<lambda>h. Inr [account_row True])))
     = None
   \<and> events (snd (snd (CreateManagedAccount new_account
         (account_db (\<lambda>q. None) (\<lambda>h. Inr [account_row True])))))
       = [ExecEv (BuilderCreate (ManagedAccount ''A'')
                   [(''admin_name'', VString ''admin''),
                    (''admin_password'', VString ''Secret123456''),
                    (''type'', VString ''READER'')]),
          LogEv ''[INFO] sleeping to give the locator a chance to be generated'',
          SleepEv 10000000000,
          QueryEv (BuilderShow (ManagedAccount ''A''))]
   \<and> fst (CreateManagedAccount new_account
            (account_db (\<lambda>q. Some (DriverErr ''timeout'')) (\<lambda>h. Inr [account_row True])))
       = Some (Wrapf (DriverErr ''timeout'') ''error creating A'')
   \<and> events (snd (snd (CreateManagedAccount new_account
            (account_db (\<lambda>q. Some (DriverErr ''timeout'')) (\<lambda>h. Inr [account_row True])))))
       = [ExecEv (BuilderCreate (ManagedAccount ''A'')
                   [(''admin_name'', VString ''admin''),
                    (''admin_password'', VString ''Secret123456''),
                    (''type'', VString ''READER'')])]"
proof -
  let ?db = "account_db (\<lambda>q. None) (\<lambda>h. Inr [account_row True])"
  let ?bad = "account_db (\<lambda>q. Some (DriverErr ''timeout'')) (\<lambda>h. Inr [account_row True])"
  let ?q = "CreateResource_statement managedAccountProperties managedAccountSchema
              ManagedAccount new_account"
  have n: "as_string (Get managedAccountSchema new_account ''name'') = ''A''"
    by (simp add: new_account_def bag_def bag_defs)
  have q: "?q = BuilderCreate (ManagedAccount ''A'')
                   [(''admin_name'', VString ''admin''),
                    (''admin_password'', VString ''Secret123456''),
                    (''type'', VString ''READER'')]"
    by (simp add: CreateResource_statement_def new_account_def bag_def bag_defs Let_def)
  have ev: "events ?db = []" "events ?bad = []"
    by (simp_all add: account_db_def)
  have x: "execResult ?db (events ?db) ?q = None"
    and xbad: "execResult ?bad (events ?bad) ?q = Some (DriverErr ''timeout'')"
    by (simp_all add: account_db_def)
  note t = CreateManagedAccount_one_fixed_delay
      [of new_account ?db, THEN conjunct2, THEN conjunct2, rule_format, OF refl refl]
  note good = t [THEN conjunct1, rule_format, OF x]
  note tbad = CreateManagedAccount_one_fixed_delay
      [of new_account ?bad, THEN conjunct2, THEN conjunct2, rule_format, OF refl refl]
  note bad = tbad [THEN conjunct2, rule_format, OF xbad]
  have read: "fst (CreateManagedAccount new_account ?db) = None"
    by (simp add: example_defs bag_defs world_defs resource_defs Let_def)
  from good bad read show ?thesis
    by (simp add: n q ev emit_def)
qed

section \<open>UpdateSchema and partial state mode\<close>

text \<open>
  Claim C1, on a concrete update. The comment and the retention of schema \<open>D|S\<close>
  change. In the first run the database executes the ALTER of the comment and refuses
  the ALTER of the retention; in the second it executes both and fails the query of the
  read that follows. \<open>UpdateSchema\<close> issues one statement per changed attribute, in
  the order of the source, and returns the error, wrapped when it comes from a
  statement; nothing is retried or undone. After the ALTER of the comment the bag is in
  partial state mode and names \<open>comment\<close> (third equation). But \<open>UpdateSchema\<close>
  leaves partial state mode before the statement for the retention, which discards
  that name, and it never reports \<open>data_retention_days\<close>: in both runs the bag that
  comes back with the error is not in partial state mode and names no attribute.
\<close>

theorem UpdateSchema_retention_outside_partial_mode:
  "UpdateSchema changed_schema (schema_db retention_refused (\<lambda>h. Inr [schema_row ''TRANSIENT'']))
     = (Some (Wrapf (DriverErr ''timeout'') ''error updating data retention days on D|S''),
        changed_schema\<lparr>rd_partial := False, rd_partialMap := {}\<rparr>,
        (schema_db retention_refused (\<lambda>h. Inr [schema_row ''TRANSIENT'']))
          \<lparr>events :=
             [ExecEv (SchemaChangeComment (WithDB (Schema ''S'') ''D'') ''new''),
              ExecEv (SchemaChangeDataRetentionDays (WithDB (Schema ''S'') ''D'') 5)]\<rparr>)
   \<and> UpdateSchema changed_schema (schema_db (\<lambda>q. None) (\<lambda>h. Inl (DriverErr ''timeout'')))
     = (Some (DriverErr ''timeout''),
        changed_schema\<lparr>rd_partial := False, rd_partialMap := {}\<rparr>,
        (schema_db (\<lambda>q. None) (\<lambda>h. Inl (DriverErr ''timeout'')))
          \<lparr>events :=
             [ExecEv (SchemaChangeComment (WithDB (Schema ''S'') ''D'') ''new''),
              ExecEv (SchemaChangeDataRetentionDays (WithDB (Schema ''S'') ''D'') 5),
              QueryEv (SchemaShow (WithDB (Schema ''S'') ''D''))]\<rparr>)
   \<and> UpdateSchema_comment (WithDB (Schema ''S'') ''D'') (Partial changed_schema True)
         (schema_db retention_refused (\<lambda>h. Inr [schema_row ''TRANSIENT'']))
     = (None, changed_schema\<lparr>rd_partial := True, rd_partialMap := {''comment''}\<rparr>,
        (schema_db retention_refused (\<lambda>h. Inr [schema_row ''TRANSIENT'']))
          \<lparr>events := [ExecEv (SchemaChangeComment (WithDB (Schema ''S'') ''D'') ''new'')]\<rparr>)"
  by (simp add: example_defs bag_defs world_defs resource_defs Split.simps Let_def)

end
